theory Spec2Isabelle
  imports Main "HOL-Library.Word"
begin

section \<open>ncdevmem: a netcat for device-memory TCP\<close>

text \<open>
  A shallow embedding of the ncdevmem tool (the unnamed C file of the repository:
  \<^verbatim>\<open>do_server\<close>, \<^verbatim>\<open>do_client\<close>, \<^verbatim>\<open>wait_compl\<close>,
  \<^verbatim>\<open>configure_headersplit\<close>, \<^verbatim>\<open>bind_rx_queue\<close>,
  \<^verbatim>\<open>validate_buffer\<close>, \<^verbatim>\<open>run_devmem_tests\<close>).

  The program is a sequence of calls into the kernel, the C library, the GPU runtime and the
  ethtool utility. Each C function becomes a HOL function that takes the answers of the
  outside world as arguments and returns what the C function returns together with the
  list of calls it made and lines it printed, oldest first. A call of
  \<^verbatim>\<open>error(1, ...)\<close> ends the process: it is the \<open>Inl\<close> branch of the result,
  which keeps the message and everything done up to that point.
\<close>

type_synonym u8 = "8 word"
type_synonym u32 = "32 word"
type_synonym u64 = "64 word"

unbundle bit_operations_syntax

subsection \<open>Constants of the Linux headers\<close>

text \<open>The values are those of the Linux uapi headers; the source only names them.\<close>

definition SOL_SOCKET :: int where "SOL_SOCKET = 1"
definition SCM_DEVMEM_LINEAR :: int where "SCM_DEVMEM_LINEAR = 78"
definition SCM_DEVMEM_DMABUF :: int where "SCM_DEVMEM_DMABUF = 79"
definition EAGAIN :: int where "EAGAIN = 11"
definition EWOULDBLOCK :: int where "EWOULDBLOCK = 11"


subsection \<open>Data\<close>

text \<open>How the process can end other than by returning: \<^verbatim>\<open>error(1, errnum, msg)\<close>
  with its message, a read through a null pointer, a division by zero.\<close>

datatype abort = Error1 string | Null_dereference | Division_by_zero

text \<open>\<^verbatim>\<open>struct dmabuf_cmsg\<close> and \<^verbatim>\<open>struct dmabuf_token\<close> of
  \<^verbatim>\<open>linux/uio.h\<close>, and a control-message header with its payload.\<close>

record dmabuf_cmsg =
  frag_offset :: u64
  frag_size :: u32
  frag_token :: u32
  dmabuf_id :: u32

record dmabuf_token =
  token_start :: u32
  token_count :: u32

record 'a cmsghdr =
  cmsg_level :: int
  cmsg_type :: int
  cmsg_data :: 'a

text \<open>\<^verbatim>\<open>struct netdev_queue_id\<close> of the generated netdev-user.h, with its presence bits.\<close>

datatype queue_type = NETDEV_QUEUE_TYPE_RX | NETDEV_QUEUE_TYPE_TX

record netdev_queue_id =
  present_type :: bool
  present_id :: bool
  q_type :: queue_type
  q_id :: u32

text \<open>An IPv6 socket address as the program uses it: the port, a field of 16 bits, and
  the address in the printable form handed to ethtool, marked when it is a v4-mapped
  one.\<close>

datatype in6_addr = In6 string | In6_v4mapped string

record sockaddr_in6 =
  sin6_port :: "16 word"
  sin6_addr :: in6_addr

text \<open>The command lines of \<^verbatim>\<open>run_command\<close> (all of them name the interface
  \<^verbatim>\<open>ifname\<close>): ntuple off or on, delete every filter, the RSS table, the channel
  counts, and the two flow rules with flow type, optional source address, destination
  address, port and queue.\<close>

datatype command =
    Ethtool_K_ntuple bool
  | Ethtool_delete_filters
  | Ethtool_X_equal int
  | Ethtool_L u32 u32
  | Ethtool_N_5tuple string "string option" string string int
  | Ethtool_N_3tuple string string string int

datatype family = Ynl_ethtool_family | Ynl_netdev_family

text \<open>What the program does to the outside world: a line on stderr (the constructors
  with arguments stand for the formatted lines), or a call with its arguments.\<close>

datatype event =
    Stderr string
  | Perror string
  | Stderr_recvmsg_ret int
  | Stderr_linear u32
  | Stderr_received dmabuf_cmsg u64
  | Stderr_frags u64 u64
  | Stderr_header_split string
  | Stderr_dmabuf_id u32
  | Stderr_tx_complete u32 u32
  | Stderr_sendmsg_ret int
  | System command
  | Sleep nat
  | Ynl_sock_create family
  | Ynl_sock_destroy family
  | Ethtool_rings_set u32 nat
  | Ethtool_rings_get u32
  | Netdev_bind_rx u32 int "netdev_queue_id list"
  | Netdev_bind_tx u32 int
  | Malloc u64
  | Free
  | Socket
  | Setsockopt_SO_REUSEPORT
  | Setsockopt_SO_REUSEADDR
  | Setsockopt_SO_BINDTODEVICE string
  | Setsockopt_SO_ZEROCOPY
  | Bind sockaddr_in6
  | Listen int
  | Accept
  | Connect sockaddr_in6
  | Close int
  | Recvmsg_devmem
  | HipMemcpy_device_to_device u64 u64 u32
  | HipMemcpy_host_to_device u64
  | Setsockopt_SO_DEVMEM_DONTNEED dmabuf_token
  | Getline
  | Sendmsg_zerocopy "(u64 \<times> u64) list" u32

text \<open>The globals of the program. \<open>g_dmabuf_id\<close> is the global
  \<^verbatim>\<open>dmabuf_id\<close> (the id of the active RX binding; the record field of that name
  is the one of \<^verbatim>\<open>struct dmabuf_cmsg\<close>). \<^verbatim>\<open>main\<close> has checked that
  \<^verbatim>\<open>server_ip\<close> and \<^verbatim>\<open>port\<close> are set before it calls
  \<^verbatim>\<open>do_server\<close> or \<^verbatim>\<open>do_client\<close>; \<^verbatim>\<open>client_ip\<close> may be
  null.\<close>

record globals =
  max_chunk :: u64
  server_ip :: string
  client_ip :: "string option"
  port :: string
  do_validation :: u64
  start_queue :: int
  num_queues :: int
  ifname :: string
  ifindex :: u32
  g_dmabuf_id :: u32
  tx_dmabuf_id :: u32
  waittime_ms :: int

text \<open>\<^verbatim>\<open>struct memory_buffer\<close>: the dma-buf descriptor and the size of the device
  buffer.\<close>

record memory_buffer =
  fd :: int
  offset :: u64
  size :: u64

subsection \<open>The receive loop of \<^verbatim>\<open>do_server\<close>\<close>

text \<open>The locals of \<^verbatim>\<open>do_server\<close> that live across iterations, and what it has
  done so far.\<close>

record server_state =
  non_page_aligned_frags :: u64
  page_aligned_frags :: u64
  total_received :: u64
  endptr :: u64
  is_devmem :: bool
  trace :: "event list"

definition emit :: "event \<Rightarrow> server_state \<Rightarrow> server_state" where
  "emit e st = st\<lparr>trace := trace st @ [e]\<rparr>"

text \<open>What one \<^verbatim>\<open>recvmsg(client_fd, &msg, MSG_SOCK_DEVMEM)\<close> gives: its return value,
  \<^verbatim>\<open>errno\<close>, and the control messages in order. Each control message comes with the
  value that \<^verbatim>\<open>setsockopt(SO_DEVMEM_DONTNEED)\<close> returns if the program returns the
  token of that message (it is not looked at otherwise).\<close>

record recv_result =
  rv_ret :: int
  rv_errno :: int
  rv_cmsgs :: "(dmabuf_cmsg cmsghdr \<times> int) list"

text \<open>The body of the loop over the control messages (lines 550 to 622), for one
  message, in three parts. First the contiguity accounting of lines 575 to 586.\<close>

definition account_frag :: "server_state \<Rightarrow> dmabuf_cmsg \<Rightarrow> server_state" where
  "account_frag st d =
    (let st2 = (if endptr st = - 1 then st\<lparr>endptr := frag_offset d\<rparr>
                else if endptr st = frag_offset d
                then st\<lparr>page_aligned_frags := page_aligned_frags st + 1\<rparr>
                else st\<lparr>endptr := frag_offset d,
                        non_page_aligned_frags := non_page_aligned_frags st + 1\<rparr>)
     in st2\<lparr>endptr := endptr st2 + ucast (frag_size d)\<rparr>)"

text \<open>Lines 588 to 622: the copy into the staging memory at \<^verbatim>\<open>total_received\<close>, the
  return of the token (\<open>r\<close> is what \<^verbatim>\<open>setsockopt\<close> returns), the byte count and the
  line that reports the fragment. The validation of lines 595 to 603 is commented out in
  the source, so nothing stands for it here.\<close>

definition copy_and_release ::
  "server_state \<Rightarrow> dmabuf_cmsg \<Rightarrow> int \<Rightarrow> (abort \<times> server_state) + server_state"
where
  "copy_and_release st d r =
    (let st4 = emit (HipMemcpy_device_to_device
                       (total_received st) (frag_offset d) (frag_size d)) st;
         st5 = emit (Setsockopt_SO_DEVMEM_DONTNEED
                       \<lparr>token_start = frag_token d, token_count = 1\<rparr>) st4
     in
     if r \<noteq> 1
     then Inl (Error1 ''SO_DEVMEM_DONTNEED not enough tokens'', st5)
     else
       let st6 = st5\<lparr>total_received := total_received st5 + ucast (frag_size d)\<rparr>
       in Inr (emit (Stderr_received d (total_received st6)) st6))"

text \<open>The whole body: the filter of lines 550 to 555, the LINEAR case, the check of the
  dmabuf id, then the two parts above.\<close>

fun cmsg_step ::
  "globals \<Rightarrow> server_state \<Rightarrow> dmabuf_cmsg cmsghdr \<times> int \<Rightarrow> (abort \<times> server_state) + server_state"
where
  "cmsg_step g st (cm, r) =
    (if cmsg_level cm \<noteq> SOL_SOCKET \<or>
        (cmsg_type cm \<noteq> SCM_DEVMEM_DMABUF \<and> cmsg_type cm \<noteq> SCM_DEVMEM_LINEAR)
     then Inr (emit (Stderr ''skipping non-devmem cmsg'') st)
     else
       let d = cmsg_data cm;
           st1 = st\<lparr>is_devmem := True\<rparr>
       in
       if cmsg_type cm = SCM_DEVMEM_LINEAR
       then Inr (emit (Stderr_linear (frag_size d)) st1)
       else if dmabuf_id d \<noteq> g_dmabuf_id g
       then Inl (Error1 ''received on wrong dmabuf_id: flow steering error'', st1)
       else copy_and_release (account_frag st1 d) d r)"

fun cmsg_loop ::
  "globals \<Rightarrow> server_state \<Rightarrow> (dmabuf_cmsg cmsghdr \<times> int) list \<Rightarrow>
   (abort \<times> server_state) + server_state"
where
  "cmsg_loop g st [] = Inr st"
| "cmsg_loop g st (c # cs) =
    (case cmsg_step g st c of
       Inl e \<Rightarrow> Inl e
     | Inr st' \<Rightarrow> cmsg_loop g st' cs)"

text \<open>The \<^verbatim>\<open>while (1)\<close> loop (lines 520 to 629) over the answers of successive
  \<^verbatim>\<open>recvmsg\<close> calls. The loop leaves only through \<^verbatim>\<open>break\<close> or
  \<^verbatim>\<open>error\<close>; \<open>None\<close> says that the answers given ran out with the loop still
  waiting in \<^verbatim>\<open>recvmsg\<close>.\<close>

fun recv_loop ::
  "globals \<Rightarrow> server_state \<Rightarrow> recv_result list \<Rightarrow> ((abort \<times> server_state) + server_state) option"
where
  "recv_loop g st [] = None"
| "recv_loop g st (m # ms) =
    (let st0 = emit Recvmsg_devmem (st\<lparr>is_devmem := False\<rparr>) in
     if rv_ret m < 0 \<and> (rv_errno m = EAGAIN \<or> rv_errno m = EWOULDBLOCK)
     then recv_loop g st0 ms
     else if rv_ret m < 0
     then recv_loop g (emit (Perror ''recvmsg'') st0) ms
     else if rv_ret m = 0
     then Some (Inr (emit (Stderr ''client exited'') st0))
     else
       (case cmsg_loop g (emit (Stderr_recvmsg_ret (rv_ret m)) st0) (rv_cmsgs m) of
          Inl e \<Rightarrow> Some (Inl e)
        | Inr st1 \<Rightarrow>
            if \<not> is_devmem st1
            then Some (Inl (Error1 ''flow steering error'', st1))
            else recv_loop g st1 ms))"

subsection \<open>NIC configuration\<close>

text \<open>\<^verbatim>\<open>reset_flow_steering\<close>: three commands whose exit status is not looked at.\<close>

definition reset_flow_steering :: "int \<times> event list" where
  "reset_flow_steering =
     (0, [System (Ethtool_K_ntuple False), System (Ethtool_K_ntuple True),
          System Ethtool_delete_filters])"

fun tcp_data_split_str :: "int \<Rightarrow> string" where
  "tcp_data_split_str val =
     (if val = 0 then ''off'' else if val = 1 then ''auto'' else if val = 2 then ''on''
      else ''?'')"

text \<open>The answers \<^verbatim>\<open>configure_headersplit\<close> gets: whether
  \<^verbatim>\<open>ynl_sock_create\<close> gives a socket, what \<^verbatim>\<open>ethtool_rings_set\<close> returns,
  and the \<^verbatim>\<open>tcp_data_split\<close> of the response of \<^verbatim>\<open>ethtool_rings_get\<close>
  (\<open>None\<close> for a null response).\<close>

record headersplit_answers =
  hs_sock :: bool
  hs_set_ret :: int
  hs_get_rsp :: "u8 option"

definition configure_headersplit ::
  "globals \<Rightarrow> headersplit_answers \<Rightarrow> bool \<Rightarrow> int \<times> event list"
where
  "configure_headersplit g a on =
    (if \<not> hs_sock a
     then (- 1, [Ynl_sock_create Ynl_ethtool_family, Stderr ''YNL: (yerr.msg)''])
     else
       let ret = hs_set_ret a;
           t1 = [Ynl_sock_create Ynl_ethtool_family,
                 Ethtool_rings_set (ifindex g) (if on then 2 else 0)]
                @ (if ret < 0 then [Stderr ''YNL failed: (ys->err.msg)''] else []);
           t2 = (if ret = 0
                 then Ethtool_rings_get (ifindex g) #
                      (case hs_get_rsp a of
                         None \<Rightarrow> []
                       | Some v \<Rightarrow> [Stderr_header_split (tcp_data_split_str (uint v))])
                 else [])
       in (ret, t1 @ t2 @ [Ynl_sock_destroy Ynl_ethtool_family]))"

text \<open>\<^verbatim>\<open>configure_rss\<close>, \<^verbatim>\<open>configure_channels\<close> and
  \<^verbatim>\<open>configure_flow_steering\<close> return what \<^verbatim>\<open>system\<close> returns for their
  command lines; \<open>sys\<close> is that answer.\<close>

definition configure_rss :: "globals \<Rightarrow> (command \<Rightarrow> int) \<Rightarrow> int \<times> event list" where
  "configure_rss g sys =
     (sys (Ethtool_X_equal (start_queue g)), [System (Ethtool_X_equal (start_queue g))])"

definition configure_channels :: "(command \<Rightarrow> int) \<Rightarrow> u32 \<Rightarrow> u32 \<Rightarrow> int \<times> event list" where
  "configure_channels sys rx tx = (sys (Ethtool_L rx tx), [System (Ethtool_L rx tx)])"

definition configure_flow_steering ::
  "globals \<Rightarrow> (command \<Rightarrow> int) \<Rightarrow> sockaddr_in6 \<Rightarrow> int \<times> event list"
where
  "configure_flow_steering g sys server_sin =
    (let (type, server_addr) =
           (case sin6_addr server_sin of
              In6 s \<Rightarrow> (''tcp6'', s)
            | In6_v4mapped s \<Rightarrow> (''tcp4'', s));
         c5 = Ethtool_N_5tuple type (client_ip g) server_addr (port g) (start_queue g);
         c3 = Ethtool_N_3tuple type server_addr (port g) (start_queue g)
     in
     if sys c5 \<noteq> 0
     then (if sys c3 \<noteq> 0 then (- 1, [System c5, System c3]) else (0, [System c5, System c3]))
     else (0, [System c5]))"

text \<open>The answers \<^verbatim>\<open>bind_rx_queue\<close> and \<^verbatim>\<open>bind_tx_queue\<close> get: whether
  \<^verbatim>\<open>ynl_sock_create\<close> gives a socket, and the response of the bind request:
  \<open>None\<close> for a null response, \<open>Some None\<close> for one with no id, \<open>Some (Some i)\<close>
  for one with the id \<open>i\<close>.\<close>

record bind_answers =
  bd_sock :: bool
  bd_rsp :: "u32 option option"

text \<open>\<^verbatim>\<open>bind_rx_queue\<close> returns its status and stores the id in the global
  \<^verbatim>\<open>dmabuf_id\<close>. The queue array and its length are one list.\<close>

definition bind_rx_queue ::
  "globals \<Rightarrow> bind_answers \<Rightarrow> u32 \<Rightarrow> int \<Rightarrow> netdev_queue_id list \<Rightarrow> int \<times> globals \<times> event list"
where
  "bind_rx_queue g a ifidx dmabuf_fd queues =
    (if \<not> bd_sock a
     then (- 1, g, [Ynl_sock_create Ynl_netdev_family, Stderr ''YNL: (yerr.msg)''])
     else
       let t = [Ynl_sock_create Ynl_netdev_family, Netdev_bind_rx ifidx dmabuf_fd queues];
           err_close = [Stderr ''YNL failed: (ys->err.msg)'', Ynl_sock_destroy Ynl_netdev_family]
       in
       case bd_rsp a of
         None \<Rightarrow> (- 1, g, t @ [Perror ''netdev_bind_rx''] @ err_close)
       | Some None \<Rightarrow> (- 1, g, t @ [Perror ''id not present''] @ err_close)
       | Some (Some i) \<Rightarrow> (0, g\<lparr>g_dmabuf_id := i\<rparr>, t @ [Stderr_dmabuf_id i]))"


text \<open>\<^verbatim>\<open>parse_address\<close>: the IPv6 form first, then the IPv4 form with the
  \<^verbatim>\<open>::ffff\<close> prefix; \<open>None\<close> is the return value -1. \<open>pton6\<close> and \<open>pton4\<close> are
  the two \<^verbatim>\<open>inet_pton\<close> calls. \<^verbatim>\<open>htons(port)\<close> keeps the low 16 bits of
  the \<^verbatim>\<open>int\<close>; the field stands for the port number they give, whatever the byte
  order in memory.\<close>

definition parse_address ::
  "(string \<Rightarrow> in6_addr option) \<Rightarrow> (string \<Rightarrow> bool) \<Rightarrow> string \<Rightarrow> int \<Rightarrow> sockaddr_in6 option"
where
  "parse_address pton6 pton4 str p =
    (case pton6 str of
       Some a \<Rightarrow> Some \<lparr>sin6_port = word_of_int p, sin6_addr = a\<rparr>
     | None \<Rightarrow>
         if pton4 str then Some \<lparr>sin6_port = word_of_int p, sin6_addr = In6_v4mapped str\<rparr> else None)"

definition create_queues :: "globals \<Rightarrow> netdev_queue_id list" where
  "create_queues g =
     map (\<lambda>i. \<lparr>present_type = True, present_id = True, q_type = NETDEV_QUEUE_TYPE_RX,
               q_id = word_of_int (start_queue g + int i)\<rparr>)
       [0 ..< nat (num_queues g)]"

subsection \<open>\<^verbatim>\<open>do_server\<close>\<close>

text \<open>The answers of the outside world to \<^verbatim>\<open>do_server\<close>, in the order of its
  calls.\<close>

record server_answers =
  sv_pton6 :: "string \<Rightarrow> in6_addr option"
  sv_pton4 :: "string \<Rightarrow> bool"
  sv_atoi :: "string \<Rightarrow> int"
  sv_system :: "command \<Rightarrow> int"
  sv_headersplit :: headersplit_answers
  sv_bind_rx :: bind_answers
  sv_malloc :: bool
  sv_socket :: int
  sv_reuseport :: int
  sv_reuseaddr :: int
  sv_bind :: int
  sv_listen :: int
  sv_accept :: int
  sv_recvmsg :: "recv_result list"

text \<open>Lines 463 to 484: the address, then the NIC, then the binding.\<close>

definition server_setup ::
  "globals \<Rightarrow> memory_buffer \<Rightarrow> server_answers \<Rightarrow>
   (abort \<times> event list) + (globals \<times> sockaddr_in6 \<times> event list)"
where
  "server_setup g mem a =
    (case parse_address (sv_pton6 a) (sv_pton4 a) (server_ip g) (sv_atoi a (port g)) of
       None \<Rightarrow> Inl (Error1 ''parse server address'', [])
     | Some server_sin \<Rightarrow>
         let (r1, t1) = reset_flow_steering in
         if r1 \<noteq> 0 then Inl (Error1 ''Failed to reset flow steering'', t1)
         else
           let (r2, t2) = configure_headersplit g (sv_headersplit a) True;
               tr2 = t1 @ t2
           in
           if r2 \<noteq> 0 then Inl (Error1 ''Failed to enable TCP header split'', tr2)
           else
             let (r3, t3) = configure_rss g (sv_system a);
                 tr3 = tr2 @ t3
             in
             if r3 \<noteq> 0 then Inl (Error1 ''Failed to configure rss'', tr3)
             else
               let (r4, t4) = configure_flow_steering g (sv_system a) server_sin;
                   tr4 = tr3 @ t4
               in
               if r4 \<noteq> 0 then Inl (Error1 ''Failed to configure flow steering'', tr4)
               else
                 let tr5 = tr4 @ [Sleep 1];
                     (r6, g', t6) =
                        bind_rx_queue g (sv_bind_rx a) (ifindex g) (fd mem) (create_queues g);
                     tr6 = tr5 @ t6
                 in
                 if r6 \<noteq> 0 then Inl (Error1 ''Failed to bind'', tr6)
                 else Inr (g', server_sin, tr6))"

text \<open>Lines 486 to 518: the staging memory and the listening socket, up to
  \<^verbatim>\<open>accept\<close>, whose result is not checked.\<close>

definition server_listen ::
  "memory_buffer \<Rightarrow> server_answers \<Rightarrow> sockaddr_in6 \<Rightarrow> (abort \<times> event list) + event list"
where
  "server_listen mem a server_sin =
    (let t1 = [Malloc (size mem)] in
     if \<not> sv_malloc a then Inl (Error1 ''malloc failed'', t1)
     else
       let t2 = t1 @ [Socket] in
       if sv_socket a < 0 then Inl (Error1 ''ncdevmem: [FAIL, create socket]'', t2)
       else
         let t3 = t2 @ [Setsockopt_SO_REUSEPORT] in
         if sv_reuseport a \<noteq> 0 then Inl (Error1 ''ncdevmem: [FAIL, SO_REUSEPORT]'', t3)
         else
           let t4 = t3 @ [Setsockopt_SO_REUSEADDR] in
           if sv_reuseaddr a \<noteq> 0 then Inl (Error1 ''ncdevmem: [FAIL, SO_REUSEADDR]'', t4)
           else
             let t5 = t4 @ [Stderr ''binding to address'', Bind server_sin] in
             if sv_bind a \<noteq> 0 then Inl (Error1 ''ncdevmem: [FAIL, bind]'', t5)
             else
               let t6 = t5 @ [Listen 1] in
               if sv_listen a \<noteq> 0 then Inl (Error1 ''ncdevmem: [FAIL, listen]'', t6)
               else Inr (t6 @ [Stderr ''Waiting or connection on'', Accept,
                               Stderr ''Got connection from'']))"

definition init_state :: "event list \<Rightarrow> server_state" where
  "init_state tr =
     \<lparr>non_page_aligned_frags = 0, page_aligned_frags = 0, total_received = 0,
      endptr = - 1, is_devmem = False, trace = tr\<rparr>"

text \<open>Lines 631 to 643: the two closing lines and the release of the resources.\<close>

definition server_cleanup :: "server_answers \<Rightarrow> server_state \<Rightarrow> server_state" where
  "server_cleanup a st =
     st\<lparr>trace := trace st @
           [Stderr ''ncdevmem: ok'',
            Stderr_frags (page_aligned_frags st) (non_page_aligned_frags st),
            Free, Close (sv_accept a), Close (sv_socket a),
            Ynl_sock_destroy Ynl_netdev_family]\<rparr>"

text \<open>\<^verbatim>\<open>do_server\<close>: \<open>Inr (0, st)\<close> is \<^verbatim>\<open>return 0\<close>.\<close>

definition do_server ::
  "globals \<Rightarrow> memory_buffer \<Rightarrow> server_answers \<Rightarrow>
   ((abort \<times> server_state) + (int \<times> server_state)) option"
where
  "do_server g mem a =
    (case server_setup g mem a of
       Inl (e, tr) \<Rightarrow> Some (Inl (e, init_state tr))
     | Inr (g', server_sin, tr) \<Rightarrow>
         (case server_listen mem a server_sin of
            Inl (e, tr') \<Rightarrow> Some (Inl (e, init_state (tr @ tr')))
          | Inr tr' \<Rightarrow>
              (case recv_loop g' (init_state (tr @ tr')) (sv_recvmsg a) of
                 None \<Rightarrow> None
               | Some (Inl e) \<Rightarrow> Some (Inl e)
               | Some (Inr st) \<Rightarrow> Some (Inr (0, server_cleanup a st)))))"

subsection \<open>\<^verbatim>\<open>validate_buffer\<close>\<close>

text \<open>The loop of \<^verbatim>\<open>validate_buffer\<close> over the bytes of the region. \<open>errors\<close> is the
  static counter of the function, handed in and returned; \<open>seed\<close> is the value expected
  next. The line printed for each mismatch is left out.\<close>

fun validate_loop :: "u64 \<Rightarrow> int \<Rightarrow> u64 \<Rightarrow> u8 list \<Rightarrow> abort + int" where
  "validate_loop dv errors seed [] = Inr errors"
| "validate_loop dv errors seed (b # bs) =
    (let errors' = (if ucast b \<noteq> seed then errors + 1 else errors) in
     if ucast b \<noteq> seed \<and> errors' > 20 then Inl (Error1 ''validation failed.'')
     else
       let seed' = seed + 1
       in validate_loop dv errors' (if seed' = dv then 0 else seed') bs)"

text \<open>\<^verbatim>\<open>validate_buffer(line, size, seed)\<close> with the global \<^verbatim>\<open>do_validation\<close> as
  \<open>dv\<close>; the region is the list of its \<^verbatim>\<open>size\<close> bytes. The remainder by zero is
  a trap.\<close>

definition validate_buffer :: "u64 \<Rightarrow> int \<Rightarrow> u8 list \<Rightarrow> u64 \<Rightarrow> abort + int" where
  "validate_buffer dv errors line seed =
     (if dv = 0 then Inl Division_by_zero else validate_loop dv errors (seed mod dv) line)"

text \<open>The number of mismatches of a region against the repeating sequence
  \<open>0, 1, ..., dv - 1\<close> entered at \<open>seed\<close>: byte \<open>i\<close> is expected to be
  \<open>(seed + i) mod dv\<close>.\<close>

definition mismatch_count :: "nat \<Rightarrow> nat \<Rightarrow> u8 list \<Rightarrow> nat" where
  "mismatch_count dv seed line =
     length (filter (\<lambda>i. unat (line ! i) \<noteq> (seed + i) mod dv) [0 ..< length line])"

subsection \<open>\<^verbatim>\<open>run_devmem_tests\<close>\<close>

text \<open>The answers to the calls of the self-test, in the order of the source: the commands,
  and each of the three header-split settings and three binds.\<close>

record selftest_answers =
  st_system :: "command \<Rightarrow> int"
  st_headersplit_1 :: headersplit_answers
  st_bind_empty :: bind_answers
  st_headersplit_2 :: headersplit_answers
  st_bind_split_off :: bind_answers
  st_headersplit_3 :: headersplit_answers
  st_bind :: bind_answers

text \<open>An entry of \<^verbatim>\<open>calloc(num_queues, sizeof(struct netdev_queue_id))\<close>: all zero,
  nothing present.\<close>

definition zeroed_queue :: netdev_queue_id where
  "zeroed_queue =
     \<lparr>present_type = False, present_id = False, q_type = NETDEV_QUEUE_TYPE_RX, q_id = 0\<rparr>"

text \<open>The body of \<^verbatim>\<open>run_devmem_tests\<close> for a given value of its local pointer
  \<^verbatim>\<open>mem\<close>, \<open>None\<close> for the null pointer. The first use of \<^verbatim>\<open>mem\<close> is
  \<^verbatim>\<open>mem->fd\<close>, an argument of the first \<^verbatim>\<open>bind_rx_queue\<close> call (line 660).\<close>

definition devmem_tests ::
  "memory_buffer option \<Rightarrow> globals \<Rightarrow> selftest_answers \<Rightarrow> (abort \<times> event list) + event list"
where
  "devmem_tests mem g a =
    (let (r1, t1) = configure_rss g (st_system a) in
     if r1 \<noteq> 0 then Inl (Error1 ''rss error'', t1)
     else
       let (r2, t2) = configure_headersplit g (st_headersplit_1 a) True;
           tr2 = t1 @ t2
       in
       if r2 \<noteq> 0 then Inl (Error1 ''Failed to configure header split'', tr2)
       else
         case mem of
           None \<Rightarrow> Inl (Null_dereference, tr2)
         | Some m \<Rightarrow>
             let (r3, g3, t3) =
                   bind_rx_queue g (st_bind_empty a) (ifindex g) (fd m)
                     (replicate (nat (num_queues g)) zeroed_queue);
                 tr3 = tr2 @ t3
             in
             if r3 = 0
             then Inl (Error1 ''Binding empty queues array should have failed'', tr3)
             else
               let (r4, t4) = configure_headersplit g3 (st_headersplit_2 a) False;
                   tr4 = tr3 @ t4
               in
               if r4 \<noteq> 0 then Inl (Error1 ''Failed to configure header split'', tr4)
               else
                 let (r5, g5, t5) =
                       bind_rx_queue g3 (st_bind_split_off a) (ifindex g3) (fd m)
                         (create_queues g3);
                     tr5 = tr4 @ t5
                 in
                 if r5 = 0
                 then Inl (Error1
                        ''Configure dmabuf with header split off should have failed'', tr5)
                 else
                   let (r6, t6) = configure_headersplit g5 (st_headersplit_3 a) True;
                       tr6 = tr5 @ t6
                   in
                   if r6 \<noteq> 0 then Inl (Error1 ''Failed to configure header split'', tr6)
                   else
                     let (r7, g7, t7) =
                           bind_rx_queue g5 (st_bind a) (ifindex g5) (fd m) (create_queues g5);
                         tr7 = tr6 @ t7
                     in
                     if r7 \<noteq> 0 then Inl (Error1 ''Failed to bind'', tr7)
                     else
                       let (r8, t8) =
                             configure_channels (st_system a)
                               (word_of_int (num_queues g7))
                               (word_of_int (num_queues g7 - 1));
                           tr8 = tr7 @ t8
                       in
                       if r8 = 0
                       then Inl (Error1 ''Deactivating a bound queue should be illegal.'', tr8)
                       else Inr (tr8 @ [Ynl_sock_destroy Ynl_netdev_family]))"

text \<open>\<^verbatim>\<open>run_devmem_tests\<close>: line 651 sets \<^verbatim>\<open>mem = NULL\<close>, and nothing assigns it
  afterwards.\<close>

definition run_devmem_tests :: "globals \<Rightarrow> selftest_answers \<Rightarrow> (abort \<times> event list) + event list"
where
  "run_devmem_tests g a = devmem_tests None g a"

subsection \<open>\<^verbatim>\<open>wait_compl\<close>\<close>

text \<open>More constants of the Linux headers.\<close>

definition SOL_IP :: int where "SOL_IP = 0"
definition SOL_IPV6 :: int where "SOL_IPV6 = 41"
definition IP_RECVERR :: int where "IP_RECVERR = 11"
definition IPV6_RECVERR :: int where "IPV6_RECVERR = 25"
definition SO_EE_ORIGIN_ZEROCOPY :: u8 where "SO_EE_ORIGIN_ZEROCOPY = 5"
definition MSG_CTRUNC :: u32 where "MSG_CTRUNC = 8"
definition POLLERR :: "16 word" where "POLLERR = 8"

text \<open>The fields of \<^verbatim>\<open>struct sock_extended_err\<close> that the program reads.\<close>

record sock_extended_err =
  ee_errno :: u32
  ee_origin :: u8
  ee_info :: u32
  ee_data :: u32

text \<open>What one turn of the loop of \<^verbatim>\<open>wait_compl\<close> gets: the clock at the test of the
  loop, what \<^verbatim>\<open>poll\<close> returns and reports, and what
  \<^verbatim>\<open>recvmsg(fd, &msg, MSG_ERRQUEUE)\<close> gives (return value, \<^verbatim>\<open>errno\<close>, message
  flags, control messages). A turn uses only what it comes to ask for.\<close>

record compl_turn =
  ct_now :: u64
  ct_poll_ret :: int
  ct_revents :: "16 word"
  ct_recv_ret :: int
  ct_errno :: int
  ct_msg_flags :: u32
  ct_cmsgs :: "sock_extended_err cmsghdr list"





subsection \<open>\<^verbatim>\<open>do_client\<close>\<close>



text \<open>The locals of \<^verbatim>\<open>do_client\<close> that live across iterations, and what it has done
  so far.\<close>

record client_state =
  total_sended :: u64
  line_size :: u64
  tx_trace :: "event list"



text \<open>Lines 839 and 840: the payload is cut to what is left of the buffer.\<close>

definition clamp_line_size :: "u64 \<Rightarrow> client_state \<Rightarrow> client_state" where
  "clamp_line_size mem_size st =
     (if total_sended st + line_size st \<ge> mem_size
      then st\<lparr>line_size := mem_size - total_sended st\<rparr> else st)"






subsection \<open>Reading a run\<close>

text \<open>The state a run of the loop ended in, whichever way it ended.\<close>

fun state_of :: "(abort \<times> server_state) + server_state \<Rightarrow> server_state" where
  "state_of (Inl (e, st)) = st"
| "state_of (Inr st) = st"

text \<open>The fragments a run reports as received (the lines of line 616): those that were
  copied, whose token was returned and whose size was added to
  \<^verbatim>\<open>total_received\<close>.\<close>

fun received_frag :: "event \<Rightarrow> dmabuf_cmsg list" where
  "received_frag (Stderr_received d t) = [d]"
| "received_frag e = []"

definition received_frags :: "event list \<Rightarrow> dmabuf_cmsg list" where
  "received_frags tr = concat (map received_frag tr)"

text \<open>The calls that move or release a fragment: the device copy and the token return.\<close>

fun is_frag_call :: "event \<Rightarrow> bool" where
  "is_frag_call (HipMemcpy_device_to_device dst src n) = True"
| "is_frag_call (Setsockopt_SO_DEVMEM_DONTNEED t) = True"
| "is_frag_call e = False"

text \<open>The state \<^verbatim>\<open>do_server\<close> ended in.\<close>

fun final_state :: "(abort \<times> server_state) + (int \<times> server_state) \<Rightarrow> server_state" where
  "final_state (Inl (e, st)) = st"
| "final_state (Inr (r, st)) = st"




text \<open>The payload vectors of the \<^verbatim>\<open>sendmsg\<close> calls of a run, and the completions it
  reported (the lines \<^verbatim>\<open>tx complete [lo, hi]\<close> of \<^verbatim>\<open>wait_compl\<close>), oldest
  first.\<close>

fun sent_vector :: "event \<Rightarrow> (u64 \<times> u64) list list" where
  "sent_vector (Sendmsg_zerocopy iov i) = [iov]"
| "sent_vector e = []"

definition sent_vectors :: "event list \<Rightarrow> (u64 \<times> u64) list list" where
  "sent_vectors tr = concat (map sent_vector tr)"

fun completion :: "event \<Rightarrow> (u32 \<times> u32) list" where
  "completion (Stderr_tx_complete lo hi) = [(lo, hi)]"
| "completion e = []"

definition completions :: "event list \<Rightarrow> (u32 \<times> u32) list" where
  "completions tr = concat (map completion tr)"



subsection \<open>Concrete inputs\<close>

text \<open>A configuration, a device buffer of 16000 pages, control-message headers, and the
  answers of a run in which every call succeeds, the binding gets the id 5 and the peer
  sends the given stream.\<close>

definition example_globals :: globals where
  "example_globals =
     \<lparr>max_chunk = 4096, server_ip = ''192.168.1.4'', client_ip = None, port = ''5201'',
      do_validation = 7, start_queue = 8, num_queues = 1, ifname = ''eth1'', ifindex = 3,
      g_dmabuf_id = 5, tx_dmabuf_id = 0, waittime_ms = 500\<rparr>"

definition example_mem :: memory_buffer where
  "example_mem = \<lparr>fd = 4, offset = 0, size = 65536000\<rparr>"

definition dmabuf_hdr :: "u32 \<Rightarrow> u64 \<Rightarrow> u32 \<Rightarrow> u32 \<Rightarrow> dmabuf_cmsg cmsghdr" where
  "dmabuf_hdr i off n tok =
     \<lparr>cmsg_level = SOL_SOCKET, cmsg_type = SCM_DEVMEM_DMABUF,
      cmsg_data = \<lparr>frag_offset = off, frag_size = n, frag_token = tok, dmabuf_id = i\<rparr>\<rparr>"

definition linear_hdr :: "u32 \<Rightarrow> dmabuf_cmsg cmsghdr" where
  "linear_hdr n =
     \<lparr>cmsg_level = SOL_SOCKET, cmsg_type = SCM_DEVMEM_LINEAR,
      cmsg_data = \<lparr>frag_offset = 0, frag_size = n, frag_token = 0, dmabuf_id = 0\<rparr>\<rparr>"

definition example_answers :: "recv_result list \<Rightarrow> server_answers" where
  "example_answers ms =
     \<lparr>sv_pton6 = (\<lambda>s. None), sv_pton4 = (\<lambda>s. True), sv_atoi = (\<lambda>s. 5201),
      sv_system = (\<lambda>c. 0),
      sv_headersplit = \<lparr>hs_sock = True, hs_set_ret = 0, hs_get_rsp = Some 2\<rparr>,
      sv_bind_rx = \<lparr>bd_sock = True, bd_rsp = Some (Some 5)\<rparr>,
      sv_malloc = True, sv_socket = 6, sv_reuseport = 0, sv_reuseaddr = 0, sv_bind = 0,
      sv_listen = 0, sv_accept = 7, sv_recvmsg = ms\<rparr>"

definition example_stream :: "recv_result list" where
  "example_stream =
     [\<lparr>rv_ret = 8192, rv_errno = 0,
       rv_cmsgs = [(dmabuf_hdr 5 0 4096 1, 1), (dmabuf_hdr 5 4096 4096 2, 1)]\<rparr>,
      \<lparr>rv_ret = 0, rv_errno = 0, rv_cmsgs = []\<rparr>]"

text \<open>A stream with a retry, a soft error, one fragment and the close of the peer,
  and the calls of the run of \<^verbatim>\<open>do_server\<close> on it, in its three phases.\<close>

definition example_retries :: "recv_result list" where
  "example_retries =
     [\<lparr>rv_ret = - 1, rv_errno = 11, rv_cmsgs = []\<rparr>,
      \<lparr>rv_ret = - 1, rv_errno = 104, rv_cmsgs = []\<rparr>,
      \<lparr>rv_ret = 4096, rv_errno = 0, rv_cmsgs = [(dmabuf_hdr 5 0 4096 1, 1)]\<rparr>,
      \<lparr>rv_ret = 0, rv_errno = 0, rv_cmsgs = []\<rparr>]"

definition example_sin :: sockaddr_in6 where
  "example_sin = \<lparr>sin6_port = 5201, sin6_addr = In6_v4mapped ''192.168.1.4''\<rparr>"

definition example_setup_trace :: "event list" where
  "example_setup_trace =
     [System (Ethtool_K_ntuple False), System (Ethtool_K_ntuple True),
      System Ethtool_delete_filters,
      Ynl_sock_create Ynl_ethtool_family, Ethtool_rings_set 3 2, Ethtool_rings_get 3,
      Stderr_header_split ''on'', Ynl_sock_destroy Ynl_ethtool_family,
      System (Ethtool_X_equal 8),
      System (Ethtool_N_5tuple ''tcp4'' None ''192.168.1.4'' ''5201'' 8),
      Sleep 1,
      Ynl_sock_create Ynl_netdev_family,
      Netdev_bind_rx 3 4
        [\<lparr>present_type = True, present_id = True, q_type = NETDEV_QUEUE_TYPE_RX, q_id = 8\<rparr>],
      Stderr_dmabuf_id 5]"

definition example_listen_trace :: "event list" where
  "example_listen_trace =
     [Malloc 65536000, Socket, Setsockopt_SO_REUSEPORT, Setsockopt_SO_REUSEADDR,
      Stderr ''binding to address'', Bind example_sin, Listen 1,
      Stderr ''Waiting or connection on'', Accept, Stderr ''Got connection from'']"

definition example_loop_trace :: "event list" where
  "example_loop_trace =
     [Recvmsg_devmem, Recvmsg_devmem, Perror ''recvmsg'', Recvmsg_devmem,
      Stderr_recvmsg_ret 4096, HipMemcpy_device_to_device 0 0 4096,
      Setsockopt_SO_DEVMEM_DONTNEED \<lparr>token_start = 1, token_count = 1\<rparr>,
      Stderr_received \<lparr>frag_offset = 0, frag_size = 4096, frag_token = 1, dmabuf_id = 5\<rparr> 4096,
      Recvmsg_devmem, Stderr ''client exited'']"


text \<open>Control messages and turns of the error queue: a turn in which \<^verbatim>\<open>poll\<close>
  reports the error queue and \<^verbatim>\<open>recvmsg\<close> gives the message, and one in which
  \<^verbatim>\<open>poll\<close> times out.\<close>

definition zerocopy_hdr :: "int \<Rightarrow> int \<Rightarrow> u8 \<Rightarrow> u32 \<Rightarrow> u32 \<Rightarrow> u32 \<Rightarrow> sock_extended_err cmsghdr" where
  "zerocopy_hdr level type origin errno lo hi =
     \<lparr>cmsg_level = level, cmsg_type = type,
      cmsg_data = \<lparr>ee_errno = errno, ee_origin = origin, ee_info = lo, ee_data = hi\<rparr>\<rparr>"

definition errqueue_turn :: "u64 \<Rightarrow> u32 \<Rightarrow> sock_extended_err cmsghdr list \<Rightarrow> compl_turn" where
  "errqueue_turn now flags cms =
     \<lparr>ct_now = now, ct_poll_ret = 1, ct_revents = 8, ct_recv_ret = 0, ct_errno = 0,
      ct_msg_flags = flags, ct_cmsgs = cms\<rparr>"

definition idle_turn :: "u64 \<Rightarrow> compl_turn" where
  "idle_turn now =
     \<lparr>ct_now = now, ct_poll_ret = 0, ct_revents = 0, ct_recv_ret = 0, ct_errno = 0,
      ct_msg_flags = 0, ct_cmsgs = []\<rparr>"


text \<open>The answers of a self-test in which the kernel refuses the bind of the empty queue
  array and the bind under header split off, accepts the third bind and refuses to take a bound
  queue away; and a stream of one fragment of 32 bytes.\<close>

definition example_selftest :: selftest_answers where
  "example_selftest =
     \<lparr>st_system = (\<lambda>c. case c of Ethtool_L rx tx \<Rightarrow> 1 | _ \<Rightarrow> 0),
      st_headersplit_1 = \<lparr>hs_sock = True, hs_set_ret = 0, hs_get_rsp = Some 2\<rparr>,
      st_bind_empty = \<lparr>bd_sock = True, bd_rsp = None\<rparr>,
      st_headersplit_2 = \<lparr>hs_sock = True, hs_set_ret = 0, hs_get_rsp = Some 0\<rparr>,
      st_bind_split_off = \<lparr>bd_sock = True, bd_rsp = None\<rparr>,
      st_headersplit_3 = \<lparr>hs_sock = True, hs_set_ret = 0, hs_get_rsp = Some 2\<rparr>,
      st_bind = \<lparr>bd_sock = True, bd_rsp = Some (Some 5)\<rparr>\<rparr>"

definition example_fragment_stream :: "recv_result list" where
  "example_fragment_stream =
     [\<lparr>rv_ret = 32, rv_errno = 0, rv_cmsgs = [(dmabuf_hdr 5 0 32 1, 1)]\<rparr>,
      \<lparr>rv_ret = 0, rv_errno = 0, rv_cmsgs = []\<rparr>]"

text \<open>A stream with a retry, a fragment of the bound dmabuf, and then a message whose
  third control message is a fragment of the dmabuf 6.\<close>

definition example_leak_stream :: "recv_result list" where
  "example_leak_stream =
     [\<lparr>rv_ret = - 1, rv_errno = 11, rv_cmsgs = []\<rparr>,
      \<lparr>rv_ret = 4096, rv_errno = 0, rv_cmsgs = [(dmabuf_hdr 5 0 4096 1, 1)]\<rparr>,
      \<lparr>rv_ret = 8292, rv_errno = 0,
       rv_cmsgs = [(linear_hdr 100, 1), (dmabuf_hdr 5 4096 4096 2, 1),
                   (dmabuf_hdr 6 0 4096 3, 1), (dmabuf_hdr 5 8192 4096 4, 1)]\<rparr>,
      \<lparr>rv_ret = 0, rv_errno = 0, rv_cmsgs = []\<rparr>]"







section \<open>Properties\<close>

subsection \<open>The fragments a run receives\<close>

lemma account_frag_frame [simp]:
  "trace (account_frag st d) = trace st"
  "total_received (account_frag st d) = total_received st"
  "is_devmem (account_frag st d) = is_devmem st"
  by (simp_all add: account_frag_def Let_def)

lemma received_frags_append [simp]:
  "received_frags (xs @ ys) = received_frags xs @ received_frags ys"
  by (simp add: received_frags_def)

lemma received_frags_simps [simp]:
  "received_frags [] = []"
  "received_frags (e # es) = received_frag e @ received_frags es"
  by (simp_all add: received_frags_def)

lemma copy_and_release_Inr:
  "copy_and_release st d 1 =
     Inr (st\<lparr>total_received := total_received st + ucast (frag_size d),
             trace := trace st @
               [HipMemcpy_device_to_device (total_received st) (frag_offset d) (frag_size d),
                Setsockopt_SO_DEVMEM_DONTNEED \<lparr>token_start = frag_token d, token_count = 1\<rparr>,
                Stderr_received d (total_received st + ucast (frag_size d))]\<rparr>)"
  by (simp add: copy_and_release_def emit_def Let_def)

lemma copy_and_release_Inl:
  "r \<noteq> 1 \<Longrightarrow> copy_and_release st d r =
     Inl (Error1 ''SO_DEVMEM_DONTNEED not enough tokens'',
          st\<lparr>trace := trace st @
               [HipMemcpy_device_to_device (total_received st) (frag_offset d) (frag_size d),
                Setsockopt_SO_DEVMEM_DONTNEED \<lparr>token_start = frag_token d, token_count = 1\<rparr>]\<rparr>)"
  by (simp add: copy_and_release_def emit_def Let_def)

lemma copy_and_release_received:
  "received_frags (trace (state_of (copy_and_release st d r))) =
     received_frags (trace st) @ (if r = 1 then [d] else [])"
  by (cases "r = 1") (simp_all add: copy_and_release_Inr copy_and_release_Inl)

lemma cmsg_step_received:
  assumes "\<forall>d \<in> set (received_frags (trace st)). dmabuf_id d = g_dmabuf_id g"
  shows "\<forall>d \<in> set (received_frags (trace (state_of (cmsg_step g st c)))).
           dmabuf_id d = g_dmabuf_id g"
proof (cases c)
  case (Pair cm r)
  show ?thesis
  proof (cases "cmsg_level cm \<noteq> SOL_SOCKET \<or>
        (cmsg_type cm \<noteq> SCM_DEVMEM_DMABUF \<and> cmsg_type cm \<noteq> SCM_DEVMEM_LINEAR)")
    case True
    then show ?thesis using assms Pair by (simp add: emit_def)
  next
    case devmem: False
    show ?thesis
    proof (cases "cmsg_type cm = SCM_DEVMEM_LINEAR")
      case True
      then show ?thesis using assms Pair devmem by (simp add: emit_def Let_def)
    next
      case dmabuf: False
      show ?thesis
      proof (cases "dmabuf_id (cmsg_data cm) \<noteq> g_dmabuf_id g")
        case True
        then show ?thesis using assms Pair devmem dmabuf by (simp add: Let_def)
      next
        case False
        then show ?thesis using assms Pair devmem dmabuf
          by (auto simp add: Let_def copy_and_release_received)
      qed
    qed
  qed
qed

lemma cmsg_loop_received:
  "\<forall>d \<in> set (received_frags (trace st)). dmabuf_id d = g_dmabuf_id g \<Longrightarrow>
   \<forall>d \<in> set (received_frags (trace (state_of (cmsg_loop g st cs)))). dmabuf_id d = g_dmabuf_id g"
proof (induction cs arbitrary: st)
  case Nil
  then show ?case by simp
next
  case (Cons c cs)
  show ?case
  proof (cases "cmsg_step g st c")
    case (Inl e)
    with cmsg_step_received [OF Cons.prems, of c] show ?thesis by simp
  next
    case (Inr st')
    with cmsg_step_received [OF Cons.prems, of c] Cons.IH [of st'] show ?thesis by simp
  qed
qed

lemma recv_loop_received:
  "\<forall>d \<in> set (received_frags (trace st)). dmabuf_id d = g_dmabuf_id g \<Longrightarrow>
   recv_loop g st ms = Some res \<Longrightarrow>
   \<forall>d \<in> set (received_frags (trace (state_of res))). dmabuf_id d = g_dmabuf_id g"
proof (induction ms arbitrary: st)
  case Nil
  then show ?case by simp
next
  case (Cons m ms)
  let ?st0 = "emit Recvmsg_devmem (st\<lparr>is_devmem := False\<rparr>)"
  have inv0: "\<forall>d \<in> set (received_frags (trace ?st0)). dmabuf_id d = g_dmabuf_id g"
    using Cons.prems(1) by (simp add: emit_def)
  consider (again) "rv_ret m < 0" "rv_errno m = EAGAIN \<or> rv_errno m = EWOULDBLOCK"
    | (soft) "rv_ret m < 0" "\<not> (rv_errno m = EAGAIN \<or> rv_errno m = EWOULDBLOCK)"
    | (closed) "rv_ret m = 0"
    | (data) "0 < rv_ret m"
    by linarith
  then show ?case
  proof cases
    case again
    then have "recv_loop g st (m # ms) = recv_loop g ?st0 ms" by (simp add: Let_def)
    with Cons.prems(2) Cons.IH [OF inv0] show ?thesis by simp
  next
    case soft
    then have eq: "recv_loop g st (m # ms) = recv_loop g (emit (Perror ''recvmsg'') ?st0) ms"
      by (simp add: Let_def)
    have "\<forall>d \<in> set (received_frags (trace (emit (Perror ''recvmsg'') ?st0))).
            dmabuf_id d = g_dmabuf_id g"
      using Cons.prems(1) by (simp add: emit_def)
    from Cons.IH [OF this] eq Cons.prems(2) show ?thesis by simp
  next
    case closed
    then have "recv_loop g st (m # ms) = Some (Inr (emit (Stderr ''client exited'') ?st0))"
      by (simp add: Let_def)
    with Cons.prems show ?thesis by (auto simp add: emit_def)
  next
    case data
    let ?st1 = "emit (Stderr_recvmsg_ret (rv_ret m)) ?st0"
    have inv1: "\<forall>d \<in> set (received_frags (trace ?st1)). dmabuf_id d = g_dmabuf_id g"
      using Cons.prems(1) by (simp add: emit_def)
    note inv2 = cmsg_loop_received [OF inv1, of "rv_cmsgs m"]
    show ?thesis
    proof (cases "cmsg_loop g ?st1 (rv_cmsgs m)")
      case (Inl e)
      with data have "recv_loop g st (m # ms) = Some (Inl e)" by (simp add: Let_def)
      with Cons.prems(2) inv2 Inl show ?thesis by auto
    next
      case (Inr st2)
      show ?thesis
      proof (cases "is_devmem st2")
        case True
        with data Inr have "recv_loop g st (m # ms) = recv_loop g st2 ms" by (simp add: Let_def)
        moreover have "\<forall>d \<in> set (received_frags (trace st2)). dmabuf_id d = g_dmabuf_id g"
          using inv2 Inr by simp
        ultimately show ?thesis using Cons.IH [of st2] Cons.prems(2) by simp
      next
        case False
        with data Inr have "recv_loop g st (m # ms) = Some (Inl (Error1 ''flow steering error'', st2))"
          by (simp add: Let_def)
        with Cons.prems(2) inv2 Inr show ?thesis by auto
      qed
    qed
  qed
qed

lemma reset_flow_steering_received [simp]: "received_frags (snd reset_flow_steering) = []"
  by (simp add: reset_flow_steering_def)

lemma configure_headersplit_received [simp]:
  "received_frags (snd (configure_headersplit g a on)) = []"
  by (simp add: configure_headersplit_def Let_def split: option.split)

lemma configure_rss_received [simp]: "received_frags (snd (configure_rss g sys)) = []"
  by (simp add: configure_rss_def)

lemma configure_flow_steering_received [simp]:
  "received_frags (snd (configure_flow_steering g sys sin)) = []"
  by (simp add: configure_flow_steering_def Let_def split: in6_addr.split)

lemma bind_rx_queue_received [simp]:
  "received_frags (snd (snd (bind_rx_queue g a i f q))) = []"
  by (simp add: bind_rx_queue_def Let_def split: option.split)

lemma bind_rx_queue_id:
  "fst (bind_rx_queue g a i f q) = 0 \<Longrightarrow>
   bd_rsp a = Some (Some (g_dmabuf_id (fst (snd (bind_rx_queue g a i f q)))))"
  by (simp add: bind_rx_queue_def Let_def split: option.splits if_splits)

lemma server_setup_Inr:
  assumes "server_setup g mem a = Inr (g', sin, tr)"
  shows "bd_rsp (sv_bind_rx a) = Some (Some (g_dmabuf_id g'))" and "received_frags tr = []"
proof -
  obtain r6 g6 t6 where b: "bind_rx_queue g (sv_bind_rx a) (ifindex g) (fd mem) (create_queues g) = (r6, g6, t6)"
    by (cases "bind_rx_queue g (sv_bind_rx a) (ifindex g) (fd mem) (create_queues g)") auto
  from assms b have "r6 = 0 \<and> g' = g6 \<and>
     tr = snd reset_flow_steering @ snd (configure_headersplit g (sv_headersplit a) True) @
          snd (configure_rss g (sv_system a)) @ snd (configure_flow_steering g (sv_system a) sin) @
          [Sleep 1] @ t6"
    by (simp add: server_setup_def Let_def split_def split: option.splits if_splits)
  moreover from bind_rx_queue_id [of g "sv_bind_rx a" "ifindex g" "fd mem" "create_queues g"]
    bind_rx_queue_received [of g "sv_bind_rx a" "ifindex g" "fd mem" "create_queues g"] b
  have "r6 = 0 \<Longrightarrow> bd_rsp (sv_bind_rx a) = Some (Some (g_dmabuf_id g6))" "received_frags t6 = []"
    by simp_all
  ultimately show "bd_rsp (sv_bind_rx a) = Some (Some (g_dmabuf_id g'))" and "received_frags tr = []"
    by simp_all
qed

lemma server_setup_Inl:
  "server_setup g mem a = Inl (e, tr) \<Longrightarrow> received_frags tr = []"
  by (auto simp add: server_setup_def Let_def split_def split: option.splits if_splits)

lemma server_listen_Inl:
  "server_listen mem a sin = Inl (e, tr) \<Longrightarrow> received_frags tr = []"
  by (auto simp add: server_listen_def Let_def split: if_splits)

lemma server_listen_received:
  "server_listen mem a sin = Inr tr \<Longrightarrow> received_frags tr = []"
  by (auto simp add: server_listen_def Let_def split: if_splits)

lemmas example_defs = example_globals_def example_mem_def dmabuf_hdr_def linear_hdr_def
  example_answers_def example_stream_def

lemmas const_defs = SOL_SOCKET_def SCM_DEVMEM_LINEAR_def SCM_DEVMEM_DMABUF_def EAGAIN_def
  EWOULDBLOCK_def

lemmas example_trace_defs = example_retries_def example_sin_def example_setup_trace_def
  example_listen_trace_def example_loop_trace_def


subsection \<open>C1: a fragment of another dmabuf is fatal\<close>

lemma cmsg_loop_append:
  "cmsg_loop g st (pre @ cs) =
     (case cmsg_loop g st pre of Inl e \<Rightarrow> Inl e | Inr st' \<Rightarrow> cmsg_loop g st' cs)"
proof (induction pre arbitrary: st)
  case Nil
  show ?case by simp
next
  case (Cons c pre)
  show ?case by (cases "cmsg_step g st c") (simp_all add: Cons.IH)
qed

lemma cmsg_step_wrong_id:
  "cmsg_level cm = SOL_SOCKET \<Longrightarrow> cmsg_type cm = SCM_DEVMEM_DMABUF \<Longrightarrow>
   dmabuf_id (cmsg_data cm) \<noteq> g_dmabuf_id g \<Longrightarrow>
   cmsg_step g st (cm, r) =
     Inl (Error1 ''received on wrong dmabuf_id: flow steering error'', st\<lparr>is_devmem := True\<rparr>)"
  by (simp add: SCM_DEVMEM_LINEAR_def SCM_DEVMEM_DMABUF_def Let_def)

lemma cmsg_loop_wrong_id:
  assumes "cmsg_loop g st pre = Inr st'"
    and "cmsg_level cm = SOL_SOCKET" "cmsg_type cm = SCM_DEVMEM_DMABUF"
    and "dmabuf_id (cmsg_data cm) \<noteq> g_dmabuf_id g"
  shows "cmsg_loop g st (pre @ (cm, r) # rest) =
     Inl (Error1 ''received on wrong dmabuf_id: flow steering error'', st'\<lparr>is_devmem := True\<rparr>)"
  using assms by (simp add: cmsg_loop_append cmsg_step_wrong_id del: cmsg_step.simps)

lemma cmsg_loop_Inr_ids:
  "cmsg_loop g st cs = Inr st' \<Longrightarrow>
   \<forall>c \<in> set cs. cmsg_level (fst c) = SOL_SOCKET \<and> cmsg_type (fst c) = SCM_DEVMEM_DMABUF \<longrightarrow>
      dmabuf_id (cmsg_data (fst c)) = g_dmabuf_id g"
proof (induction cs arbitrary: st)
  case Nil
  show ?case by simp
next
  case (Cons c cs)
  obtain cm r where c: "c = (cm, r)" by (cases c)
  show ?case
  proof (cases "cmsg_step g st c")
    case (Inl e)
    with Cons.prems show ?thesis by simp
  next
    case (Inr st1)
    with Cons.prems have "cmsg_loop g st1 cs = Inr st'" by simp
    note rest = Cons.IH [OF this]
    have "dmabuf_id (cmsg_data cm) = g_dmabuf_id g"
      if "cmsg_level cm = SOL_SOCKET" "cmsg_type cm = SCM_DEVMEM_DMABUF"
    proof (rule ccontr)
      assume "dmabuf_id (cmsg_data cm) \<noteq> g_dmabuf_id g"
      from cmsg_step_wrong_id [OF that this, of st r] Inr c show False by simp
    qed
    with rest c show ?thesis by simp
  qed
qed

lemma recv_loop_Inr_ids:
  "recv_loop g st ms = Some (Inr st') \<Longrightarrow>
   \<forall>m \<in> set (takeWhile (\<lambda>m. rv_ret m \<noteq> 0) ms). 0 < rv_ret m \<longrightarrow>
     (\<forall>c \<in> set (rv_cmsgs m).
        cmsg_level (fst c) = SOL_SOCKET \<and> cmsg_type (fst c) = SCM_DEVMEM_DMABUF \<longrightarrow>
        dmabuf_id (cmsg_data (fst c)) = g_dmabuf_id g)"
proof (induction ms arbitrary: st)
  case Nil
  show ?case by simp
next
  case (Cons m ms)
  let ?st0 = "emit Recvmsg_devmem (st\<lparr>is_devmem := False\<rparr>)"
  consider (again) "rv_ret m < 0" "rv_errno m = EAGAIN \<or> rv_errno m = EWOULDBLOCK"
    | (soft) "rv_ret m < 0" "\<not> (rv_errno m = EAGAIN \<or> rv_errno m = EWOULDBLOCK)"
    | (closed) "rv_ret m = 0"
    | (data) "0 < rv_ret m"
    by linarith
  then show ?case
  proof cases
    case again
    then have "recv_loop g st (m # ms) = recv_loop g ?st0 ms" by (simp add: Let_def)
    with Cons.prems Cons.IH [of ?st0] again(1) show ?thesis by simp
  next
    case soft
    then have "recv_loop g st (m # ms) = recv_loop g (emit (Perror ''recvmsg'') ?st0) ms"
      by (simp add: Let_def)
    with Cons.prems Cons.IH [of "emit (Perror ''recvmsg'') ?st0"] soft(1) show ?thesis by simp
  next
    case closed
    then show ?thesis by simp
  next
    case data
    let ?st1 = "emit (Stderr_recvmsg_ret (rv_ret m)) ?st0"
    show ?thesis
    proof (cases "cmsg_loop g ?st1 (rv_cmsgs m)")
      case (Inl e)
      with data have "recv_loop g st (m # ms) = Some (Inl e)" by (simp add: Let_def)
      with Cons.prems show ?thesis by simp
    next
      case (Inr st2)
      note here = cmsg_loop_Inr_ids [OF Inr]
      show ?thesis
      proof (cases "is_devmem st2")
        case True
        with data Inr have "recv_loop g st (m # ms) = recv_loop g st2 ms" by (simp add: Let_def)
        with Cons.prems Cons.IH [of st2] here data show ?thesis by simp
      next
        case False
        with data Inr have "recv_loop g st (m # ms) = Some (Inl (Error1 ''flow steering error'', st2))"
          by (simp add: Let_def)
        with Cons.prems show ?thesis by simp
      qed
    qed
  qed
qed

lemma do_server_recv_loop:
  "server_setup g mem a = Inr (g', sin, tr) \<Longrightarrow> server_listen mem a sin = Inr tr' \<Longrightarrow>
   do_server g mem a =
     (case recv_loop g' (init_state (tr @ tr')) (sv_recvmsg a) of
        None \<Rightarrow> None
      | Some (Inl e) \<Rightarrow> Some (Inl e)
      | Some (Inr st) \<Rightarrow> Some (Inr (0, server_cleanup a st)))"
  by (simp add: do_server_def)

lemma do_server_Inr_ids:
  assumes run: "do_server g mem a = Some (Inr res)"
  shows "\<forall>m \<in> set (takeWhile (\<lambda>m. rv_ret m \<noteq> 0) (sv_recvmsg a)). 0 < rv_ret m \<longrightarrow>
     (\<forall>c \<in> set (rv_cmsgs m).
        cmsg_level (fst c) = SOL_SOCKET \<and> cmsg_type (fst c) = SCM_DEVMEM_DMABUF \<longrightarrow>
        bd_rsp (sv_bind_rx a) = Some (Some (dmabuf_id (cmsg_data (fst c)))))"
proof -
  from run obtain g' sin tr where su: "server_setup g mem a = Inr (g', sin, tr)"
    by (cases "server_setup g mem a") (auto simp add: do_server_def)
  from run su obtain tr' where li: "server_listen mem a sin = Inr tr'"
    by (cases "server_listen mem a sin") (auto simp add: do_server_def)
  from run obtain st where "recv_loop g' (init_state (tr @ tr')) (sv_recvmsg a) = Some (Inr st)"
    by (simp add: do_server_recv_loop [OF su li] split: option.splits sum.splits)
  from recv_loop_Inr_ids [OF this] server_setup_Inr(1) [OF su] show ?thesis by simp
qed

text \<open>
  Claim C1. In the receive loop, a DMABUF control message whose \<^verbatim>\<open>dmabuf_id\<close> differs
  from the id of the active RX binding ends the process with the flow-steering error, before
  anything is done with the fragment (first part). Put the other way round: a step of the
  loop that copies a fragment, returns a token or adds to \<^verbatim>\<open>total_received\<close> is a
  step on a DMABUF message with the id of the binding (second part), and in every run of
  \<^verbatim>\<open>do_server\<close>, however it ends, each fragment reported as received carries the id
  that the bind request returned (third part).

  The error of the step is the end of the run. When the control messages in front of such a
  message are passed, the loop over the control messages ends with the error at this
  message, whatever follows it (fourth part); so does the iteration of the receive loop
  that got the message, in whatever state the loop was and whatever the later
  \<^verbatim>\<open>recvmsg\<close> calls would give (fifth part); and \<^verbatim>\<open>do_server\<close> ends as its
  receive loop does: with the error of the loop, and with \<^verbatim>\<open>return 0\<close> only when the
  loop was left through \<^verbatim>\<open>break\<close> (sixth part). Hence a run of \<^verbatim>\<open>do_server\<close>
  that returns has seen no DMABUF control message of another id than that of the binding
  in any message up to the close of the peer (seventh part).
\<close>

theorem wrong_dmabuf_id_is_fatal:
  "(cmsg_level cm = SOL_SOCKET \<and> cmsg_type cm = SCM_DEVMEM_DMABUF \<and>
    dmabuf_id (cmsg_data cm) \<noteq> g_dmabuf_id g \<longrightarrow>
      cmsg_step g st (cm, r) =
        Inl (Error1 ''received on wrong dmabuf_id: flow steering error'',
             st\<lparr>is_devmem := True\<rparr>)) \<and>
   (filter is_frag_call (trace (state_of (cmsg_step g st (cm, r)))) \<noteq>
      filter is_frag_call (trace st) \<or>
    total_received (state_of (cmsg_step g st (cm, r))) \<noteq> total_received st \<longrightarrow>
      cmsg_level cm = SOL_SOCKET \<and> cmsg_type cm = SCM_DEVMEM_DMABUF \<and>
      dmabuf_id (cmsg_data cm) = g_dmabuf_id g) \<and>
   (do_server g mem a = Some res \<longrightarrow>
      (\<forall>d \<in> set (received_frags (trace (final_state res))).
         bd_rsp (sv_bind_rx a) = Some (Some (dmabuf_id d)))) \<and>
   (cmsg_loop g st pre = Inr st' \<and>
    cmsg_level cm = SOL_SOCKET \<and> cmsg_type cm = SCM_DEVMEM_DMABUF \<and>
    dmabuf_id (cmsg_data cm) \<noteq> g_dmabuf_id g \<longrightarrow>
      cmsg_loop g st (pre @ (cm, r) # rest) =
        Inl (Error1 ''received on wrong dmabuf_id: flow steering error'',
             st'\<lparr>is_devmem := True\<rparr>)) \<and>
   (0 < rv_ret m \<and> rv_cmsgs m = pre @ (cm, r) # rest \<and>
    cmsg_loop g (emit (Stderr_recvmsg_ret (rv_ret m))
                   (emit Recvmsg_devmem (st\<lparr>is_devmem := False\<rparr>))) pre = Inr st' \<and>
    cmsg_level cm = SOL_SOCKET \<and> cmsg_type cm = SCM_DEVMEM_DMABUF \<and>
    dmabuf_id (cmsg_data cm) \<noteq> g_dmabuf_id g \<longrightarrow>
      recv_loop g st (m # ms) =
        Some (Inl (Error1 ''received on wrong dmabuf_id: flow steering error'',
                   st'\<lparr>is_devmem := True\<rparr>))) \<and>
   (server_setup g mem a = Inr (g', sin, tr) \<and> server_listen mem a sin = Inr tr' \<longrightarrow>
      do_server g mem a =
        (case recv_loop g' (init_state (tr @ tr')) (sv_recvmsg a) of
           None \<Rightarrow> None
         | Some (Inl e) \<Rightarrow> Some (Inl e)
         | Some (Inr st) \<Rightarrow> Some (Inr (0, server_cleanup a st)))) \<and>
   ((\<exists>ok. do_server g mem a = Some (Inr ok)) \<longrightarrow>
      (\<forall>m \<in> set (takeWhile (\<lambda>m. rv_ret m \<noteq> 0) (sv_recvmsg a)). 0 < rv_ret m \<longrightarrow>
         (\<forall>c \<in> set (rv_cmsgs m).
            cmsg_level (fst c) = SOL_SOCKET \<and> cmsg_type (fst c) = SCM_DEVMEM_DMABUF \<longrightarrow>
            bd_rsp (sv_bind_rx a) = Some (Some (dmabuf_id (cmsg_data (fst c)))))))"
proof -
  have fatal: "cmsg_step g st (cm, r) =
        Inl (Error1 ''received on wrong dmabuf_id: flow steering error'',
             st\<lparr>is_devmem := True\<rparr>)"
    if "cmsg_level cm = SOL_SOCKET \<and> cmsg_type cm = SCM_DEVMEM_DMABUF \<and>
        dmabuf_id (cmsg_data cm) \<noteq> g_dmabuf_id g"
    using that cmsg_step_wrong_id [of cm g st r] by blast
  have touched: "cmsg_level cm = SOL_SOCKET \<and> cmsg_type cm = SCM_DEVMEM_DMABUF \<and>
      dmabuf_id (cmsg_data cm) = g_dmabuf_id g"
    if ch: "filter is_frag_call (trace (state_of (cmsg_step g st (cm, r)))) \<noteq>
      filter is_frag_call (trace st) \<or>
    total_received (state_of (cmsg_step g st (cm, r))) \<noteq> total_received st"
  proof -
  have skip: "cmsg_level cm \<noteq> SOL_SOCKET \<or>
        (cmsg_type cm \<noteq> SCM_DEVMEM_DMABUF \<and> cmsg_type cm \<noteq> SCM_DEVMEM_LINEAR) \<Longrightarrow> False"
    using ch by (simp add: emit_def)
  have linear: "cmsg_level cm = SOL_SOCKET \<Longrightarrow> cmsg_type cm = SCM_DEVMEM_LINEAR \<Longrightarrow> False"
    using ch by (simp add: emit_def Let_def SCM_DEVMEM_LINEAR_def SCM_DEVMEM_DMABUF_def)
  have wrong: "cmsg_level cm = SOL_SOCKET \<Longrightarrow> cmsg_type cm = SCM_DEVMEM_DMABUF \<Longrightarrow>
     dmabuf_id (cmsg_data cm) \<noteq> g_dmabuf_id g \<Longrightarrow> False"
    using ch by (simp add: emit_def Let_def SCM_DEVMEM_LINEAR_def SCM_DEVMEM_DMABUF_def)
    from skip linear wrong show ?thesis by blast
  qed
  have run: "\<forall>d \<in> set (received_frags (trace (final_state res))).
         bd_rsp (sv_bind_rx a) = Some (Some (dmabuf_id d))"
    if run: "do_server g mem a = Some res"
  proof (cases "server_setup g mem a")
    case (Inl x)
    with run show ?thesis
      by (cases x) (auto simp add: do_server_def init_state_def dest: server_setup_Inl)
  next
    case (Inr y)
    then obtain g' sin tr where su: "server_setup g mem a = Inr (g', sin, tr)"
      by (cases y) auto
    note ids = server_setup_Inr [OF su]
    show ?thesis
    proof (cases "server_listen mem a sin")
      case (Inl x)
      with run su ids show ?thesis
        by (cases x) (auto simp add: do_server_def init_state_def dest: server_listen_Inl)
    next
      case (Inr tr')
      have inv: "\<forall>d \<in> set (received_frags (trace (init_state (tr @ tr')))).
                   dmabuf_id d = g_dmabuf_id g'"
        using ids(2) server_listen_received [OF Inr] by (simp add: init_state_def)
      show ?thesis
      proof (cases "recv_loop g' (init_state (tr @ tr')) (sv_recvmsg a)")
        case None
        with run su Inr show ?thesis by (simp add: do_server_def)
      next
        case (Some out)
        note fin = recv_loop_received [OF inv Some]
        show ?thesis
        proof (cases out)
          case (Inl e)
          with run su Inr Some have "res = Inl e" by (simp add: do_server_def)
          with fin Inl ids(1) show ?thesis by (cases e) auto
        next
          case (Inr st)
          with run su \<open>server_listen mem a sin = Inr tr'\<close> Some
          have "res = Inr (0, server_cleanup a st)" by (simp add: do_server_def)
          with fin Inr ids(1) show ?thesis by (auto simp add: server_cleanup_def)
        qed
      qed
    qed
  qed
  have loop: "cmsg_loop g st (pre @ (cm, r) # rest) =
        Inl (Error1 ''received on wrong dmabuf_id: flow steering error'',
             st'\<lparr>is_devmem := True\<rparr>)"
    if "cmsg_loop g st pre = Inr st' \<and>
        cmsg_level cm = SOL_SOCKET \<and> cmsg_type cm = SCM_DEVMEM_DMABUF \<and>
        dmabuf_id (cmsg_data cm) \<noteq> g_dmabuf_id g"
    using that cmsg_loop_wrong_id [of g st pre st' cm r rest] by blast
  have iteration: "recv_loop g st (m # ms) =
        Some (Inl (Error1 ''received on wrong dmabuf_id: flow steering error'',
                   st'\<lparr>is_devmem := True\<rparr>))"
    if h: "0 < rv_ret m \<and> rv_cmsgs m = pre @ (cm, r) # rest \<and>
        cmsg_loop g (emit (Stderr_recvmsg_ret (rv_ret m))
                       (emit Recvmsg_devmem (st\<lparr>is_devmem := False\<rparr>))) pre = Inr st' \<and>
        cmsg_level cm = SOL_SOCKET \<and> cmsg_type cm = SCM_DEVMEM_DMABUF \<and>
        dmabuf_id (cmsg_data cm) \<noteq> g_dmabuf_id g"
  proof -
    from h cmsg_loop_wrong_id [of g _ pre st' cm r rest]
    have "cmsg_loop g (emit (Stderr_recvmsg_ret (rv_ret m))
                       (emit Recvmsg_devmem (st\<lparr>is_devmem := False\<rparr>))) (rv_cmsgs m) =
        Inl (Error1 ''received on wrong dmabuf_id: flow steering error'',
             st'\<lparr>is_devmem := True\<rparr>)"
      by simp
    moreover from h have "0 < rv_ret m" by simp
    ultimately show ?thesis by (simp add: Let_def)
  qed
  have server: "do_server g mem a =
        (case recv_loop g' (init_state (tr @ tr')) (sv_recvmsg a) of
           None \<Rightarrow> None
         | Some (Inl e) \<Rightarrow> Some (Inl e)
         | Some (Inr st) \<Rightarrow> Some (Inr (0, server_cleanup a st)))"
    if "server_setup g mem a = Inr (g', sin, tr) \<and> server_listen mem a sin = Inr tr'"
    using that by (simp add: do_server_recv_loop)
  have returned: "\<forall>m \<in> set (takeWhile (\<lambda>m. rv_ret m \<noteq> 0) (sv_recvmsg a)). 0 < rv_ret m \<longrightarrow>
         (\<forall>c \<in> set (rv_cmsgs m).
            cmsg_level (fst c) = SOL_SOCKET \<and> cmsg_type (fst c) = SCM_DEVMEM_DMABUF \<longrightarrow>
            bd_rsp (sv_bind_rx a) = Some (Some (dmabuf_id (cmsg_data (fst c)))))"
    if "\<exists>ok. do_server g mem a = Some (Inr ok)"
    using that do_server_Inr_ids [of g mem a] by blast
  from fatal touched run loop iteration server returned show ?thesis by blast
qed

text \<open>The parts at concrete inputs: a fragment with the id 6 under a binding with the
  id 5; a fragment with the id 5, which adds its 4096 bytes; a whole run that receives two
  fragments and ends when the peer closes, all of whose fragments have the id 5; control
  messages and a message with a fragment of the id 6 behind a LINEAR one; and the run on
  the stream whose third message has a fragment of the id 6 in third place, which ends
  there with the flow-steering error, two fragments received and the later fragment and
  the later message not looked at.\<close>

theorem wrong_dmabuf_id_is_fatal_witness:
  "cmsg_step example_globals (init_state []) (dmabuf_hdr 6 0 4096 1, 1) =
     Inl (Error1 ''received on wrong dmabuf_id: flow steering error'',
          (init_state [])\<lparr>is_devmem := True\<rparr>) \<and>
   total_received (state_of (cmsg_step example_globals (init_state [])
     (dmabuf_hdr 5 0 4096 1, 1))) = 4096 \<and>
   dmabuf_id (cmsg_data (dmabuf_hdr 5 0 4096 1)) = g_dmabuf_id example_globals \<and>
   (case do_server example_globals example_mem (example_answers example_stream) of
      Some (Inr (r, st)) \<Rightarrow>
        r = 0 \<and> total_received st = 8192 \<and> map dmabuf_id (received_frags (trace st)) = [5, 5]
    | _ \<Rightarrow> False) \<and>
   cmsg_loop example_globals (init_state [])
     ([(linear_hdr 100, 1)] @ (dmabuf_hdr 6 0 4096 3, 1) # [(dmabuf_hdr 5 8192 4096 4, 1)]) =
     Inl (Error1 ''received on wrong dmabuf_id: flow steering error'',
          (emit (Stderr_linear 100) ((init_state [])\<lparr>is_devmem := True\<rparr>))
            \<lparr>is_devmem := True\<rparr>) \<and>
   (case recv_loop example_globals (init_state []) (drop 2 example_leak_stream) of
      Some (Inl (e, st)) \<Rightarrow>
        e = Error1 ''received on wrong dmabuf_id: flow steering error'' \<and>
        total_received st = 4096 \<and>
        map frag_token (received_frags (trace st)) = [2]
    | _ \<Rightarrow> False) \<and>
   (case do_server example_globals example_mem (example_answers example_leak_stream) of
      Some (Inl (e, st)) \<Rightarrow>
        e = Error1 ''received on wrong dmabuf_id: flow steering error'' \<and>
        total_received st = 8192 \<and>
        map frag_token (received_frags (trace st)) = [1, 2] \<and>
        length (filter (\<lambda>e. e = Recvmsg_devmem) (trace st)) = 3
    | _ \<Rightarrow> False) \<and>
   bd_rsp (sv_bind_rx (example_answers example_stream)) =
     Some (Some (dmabuf_id (cmsg_data (dmabuf_hdr 5 4096 4096 2))))"
proof -
  note t = wrong_dmabuf_id_is_fatal
  have a: "cmsg_level (dmabuf_hdr 6 0 4096 1) = SOL_SOCKET \<and>
     cmsg_type (dmabuf_hdr 6 0 4096 1) = SCM_DEVMEM_DMABUF \<and>
     dmabuf_id (cmsg_data (dmabuf_hdr 6 0 4096 1)) \<noteq> g_dmabuf_id example_globals"
    by (simp add: example_defs)
  have b: "total_received (state_of (cmsg_step example_globals (init_state [])
     (dmabuf_hdr 5 0 4096 1, 1))) = 4096"
    by code_simp
  then have b': "total_received (state_of (cmsg_step example_globals (init_state [])
     (dmabuf_hdr 5 0 4096 1, 1))) \<noteq> total_received (init_state [])"
    by (simp add: init_state_def)
  have c: "(case do_server example_globals example_mem (example_answers example_stream) of
      Some (Inr (r, st)) \<Rightarrow>
        r = 0 \<and> total_received st = 8192 \<and> map dmabuf_id (received_frags (trace st)) = [5, 5]
    | _ \<Rightarrow> False)"
    by code_simp
  note w1 = t [THEN conjunct1, THEN mp, OF a]
  note w2 = t [THEN conjunct2, THEN conjunct1, THEN mp, OF disjI2, OF b']
  have h4: "cmsg_loop example_globals (init_state []) [(linear_hdr 100, 1)] =
       Inr (emit (Stderr_linear 100) ((init_state [])\<lparr>is_devmem := True\<rparr>)) \<and>
     cmsg_level (dmabuf_hdr 6 0 4096 3) = SOL_SOCKET \<and>
     cmsg_type (dmabuf_hdr 6 0 4096 3) = SCM_DEVMEM_DMABUF \<and>
     dmabuf_id (cmsg_data (dmabuf_hdr 6 0 4096 3)) \<noteq> g_dmabuf_id example_globals"
    by code_simp
  note w4 = t [THEN conjunct2, THEN conjunct2, THEN conjunct2, THEN conjunct1, THEN mp, OF h4,
      of 1 "[(dmabuf_hdr 5 8192 4096 4, 1)]"]
  let ?m = "example_leak_stream ! 2"
  let ?st1 = "emit (Stderr_recvmsg_ret (rv_ret ?m))
                (emit Recvmsg_devmem ((init_state [])\<lparr>is_devmem := False\<rparr>))"
  let ?pre = "[(linear_hdr 100, 1), (dmabuf_hdr 5 4096 4096 2, 1)]"
  have h5: "0 < rv_ret ?m \<and>
     rv_cmsgs ?m = ?pre @ (dmabuf_hdr 6 0 4096 3, 1) # [(dmabuf_hdr 5 8192 4096 4, 1)] \<and>
     cmsg_loop example_globals ?st1 ?pre =
       Inr (state_of (cmsg_loop example_globals ?st1 ?pre)) \<and>
     cmsg_level (dmabuf_hdr 6 0 4096 3) = SOL_SOCKET \<and>
     cmsg_type (dmabuf_hdr 6 0 4096 3) = SCM_DEVMEM_DMABUF \<and>
     dmabuf_id (cmsg_data (dmabuf_hdr 6 0 4096 3)) \<noteq> g_dmabuf_id example_globals"
    by code_simp
  have d2: "drop 2 example_leak_stream = ?m # drop 3 example_leak_stream"
    by code_simp
  have w5: "(case recv_loop example_globals (init_state []) (drop 2 example_leak_stream) of
      Some (Inl (e, st)) \<Rightarrow>
        e = Error1 ''received on wrong dmabuf_id: flow steering error'' \<and>
        total_received st = 4096 \<and>
        map frag_token (received_frags (trace st)) = [2]
    | _ \<Rightarrow> False)"
    by (subst d2,
        subst t [THEN conjunct2, THEN conjunct2, THEN conjunct2, THEN conjunct2, THEN conjunct1,
          THEN mp, OF h5])
      code_simp
  let ?a = "example_answers example_leak_stream"
  have h6: "server_setup example_globals example_mem ?a =
       Inr (example_globals, example_sin, example_setup_trace) \<and>
     server_listen example_mem ?a example_sin = Inr example_listen_trace"
    by code_simp
  have w6: "(case do_server example_globals example_mem ?a of
      Some (Inl (e, st)) \<Rightarrow>
        e = Error1 ''received on wrong dmabuf_id: flow steering error'' \<and>
        total_received st = 8192 \<and>
        map frag_token (received_frags (trace st)) = [1, 2] \<and>
        length (filter (\<lambda>e. e = Recvmsg_devmem) (trace st)) = 3
    | _ \<Rightarrow> False)"
    by (subst t [THEN conjunct2, THEN conjunct2, THEN conjunct2, THEN conjunct2, THEN conjunct2,
          THEN conjunct1, THEN mp, OF h6])
      code_simp
  from c have h7: "\<exists>ok. do_server example_globals example_mem (example_answers example_stream) =
      Some (Inr ok)"
    by (auto split: option.splits sum.splits)
  note all = t [THEN conjunct2, THEN conjunct2, THEN conjunct2, THEN conjunct2, THEN conjunct2,
      THEN conjunct2, THEN mp, OF h7]
  have m: "example_stream ! 0 \<in>
      set (takeWhile (\<lambda>m. rv_ret m \<noteq> 0) (sv_recvmsg (example_answers example_stream)))"
    by (simp add: example_defs)
  have w7: "bd_rsp (sv_bind_rx (example_answers example_stream)) =
     Some (Some (dmabuf_id (cmsg_data (dmabuf_hdr 5 4096 4096 2))))"
    using all [THEN bspec, OF m, THEN mp, THEN bspec, of "(dmabuf_hdr 5 4096 4096 2, 1)"]
    by (simp add: example_defs const_defs)
  from w1 [of "init_state []" 1] b w2 [THEN conjunct2, THEN conjunct2] c w4 w5 w6 w7
  show ?thesis by (intro conjI)
qed

subsection \<open>C2: validation of the received data\<close>

text \<open>What \<^verbatim>\<open>validate_buffer\<close> does when it is called: with \<open>errors\<close> mismatches
  counted so far, it ends the process when the count passes 20 and returns the new count
  otherwise.\<close>


lemma mismatch_count_Nil [simp]: "mismatch_count dv s [] = 0"
  by (simp add: mismatch_count_def)

lemma mismatch_count_Cons:
  "mismatch_count dv s (b # bs) =
     (if unat b \<noteq> s mod dv then 1 else 0) + mismatch_count dv (Suc s) bs"
proof -
  have "[0 ..< length (b # bs)] = 0 # map Suc [0 ..< length bs]"
    by (simp only: length_Cons upt_conv_Cons [OF zero_less_Suc] map_Suc_upt)
  then show ?thesis
    by (simp add: mismatch_count_def filter_map comp_def)
qed

lemma mismatch_count_mod: "mismatch_count dv (s mod dv) line = mismatch_count dv s line"
  by (simp add: mismatch_count_def mod_add_left_eq)

lemma next_seed:
  fixes seed dv :: u64
  assumes "seed < dv"
  shows "(if seed + 1 = dv then 0 else seed + 1) < dv"
    and "unat (if seed + 1 = dv then 0 else seed + 1) = Suc (unat seed) mod unat dv"
proof -
  from assms have lt: "unat seed < unat dv" by (simp add: word_less_nat_alt)
  have "unat dv < 2 ^ 64" using unsigned_less [of dv] by simp
  with lt have "unat seed + unat (1 :: u64) < 2 ^ 64" by simp
  then have s1: "unat (seed + 1) = Suc (unat seed)"
    by (simp add: unat_add_lem [THEN iffD1])
  show "(if seed + 1 = dv then 0 else seed + 1) < dv"
  proof (cases "seed + 1 = dv")
    case True
    from assms have "dv \<noteq> 0" by auto
    with True show ?thesis by (simp add: word_greater_zero_iff)
  next
    case False
    then have "unat (seed + 1) \<noteq> unat dv" by (simp add: word_unat_eq_iff)
    with s1 lt have "unat (seed + 1) < unat dv" by linarith
    with False show ?thesis by (simp add: word_less_nat_alt)
  qed
  show "unat (if seed + 1 = dv then 0 else seed + 1) = Suc (unat seed) mod unat dv"
  proof (cases "seed + 1 = dv")
    case True
    then have "Suc (unat seed) = unat dv" using s1 by simp
    with True show ?thesis by simp
  next
    case False
    then have "unat (seed + 1) \<noteq> unat dv" by (simp add: word_unat_eq_iff)
    with s1 lt have "Suc (unat seed) < unat dv" by linarith
    with False s1 show ?thesis by simp
  qed
qed

lemma validate_loop_count:
  fixes seed dv :: u64
  assumes "seed < dv" "errors \<le> 20"
  shows "validate_loop dv errors seed line =
     (if 20 < errors + int (mismatch_count (unat dv) (unat seed) line)
      then Inl (Error1 ''validation failed.'')
      else Inr (errors + int (mismatch_count (unat dv) (unat seed) line)))"
  using assms
proof (induction line arbitrary: errors seed)
  case Nil
  then show ?case by simp
next
  case (Cons b bs)
  let ?next = "if seed + 1 = dv then 0 else seed + 1"
  note nx = next_seed [OF Cons.prems(1)]
  from Cons.prems(1) have lt: "unat seed < unat dv" by (simp add: word_less_nat_alt)
  then have md: "unat seed mod unat dv = unat seed" by simp
  have "unat b < 2 ^ 8" using unsigned_less [of b] by simp
  then have "unat b < 2 ^ 64" by simp
  then have "take_bit 64 (unat b) = unat b" by (simp only: take_bit_nat_eq_self)
  then have ub: "unat (ucast b :: u64) = unat b" by (simp add: unsigned_ucast_eq)
  have cmp: "(ucast b \<noteq> seed) = (unat b \<noteq> unat seed)"
    using ub by (metis word_unat_eq_iff)
  have rest: "mismatch_count (unat dv) (Suc (unat seed)) bs =
              mismatch_count (unat dv) (unat ?next) bs"
    using nx(2) mismatch_count_mod [of "unat dv" "Suc (unat seed)" bs] by simp
  show ?case
  proof (cases "unat b \<noteq> unat seed")
    case True
    show ?thesis
    proof (cases "20 < errors + 1")
      case True
      with \<open>unat b \<noteq> unat seed\<close> show ?thesis
        by (simp add: cmp Let_def mismatch_count_Cons md)
    next
      case False
      then have "errors + 1 \<le> 20" by simp
      from Cons.IH [OF nx(1) this] \<open>unat b \<noteq> unat seed\<close> False show ?thesis
        by (simp add: cmp Let_def mismatch_count_Cons md rest add.assoc)
    qed
  next
    case False
    from Cons.IH [OF nx(1) Cons.prems(2)] False show ?thesis
      by (simp add: cmp Let_def mismatch_count_Cons md rest)
  qed
qed

lemma validate_buffer_count:
  assumes "dv \<noteq> 0" "errors \<le> 20"
  shows "validate_buffer dv errors line seed =
     (if 20 < errors + int (mismatch_count (unat dv) (unat seed) line)
      then Inl (Error1 ''validation failed.'')
      else Inr (errors + int (mismatch_count (unat dv) (unat seed) line)))"
proof -
  from assms(1) have "seed mod dv < dv" by (simp add: word_mod_less_divisor word_greater_zero_iff)
  from validate_loop_count [OF this assms(2), of line]
    mismatch_count_mod [of "unat dv" "unat seed" line] assms(1)
  show ?thesis by (simp add: validate_buffer_def unat_mod)
qed

text \<open>The receive loop does not read \<^verbatim>\<open>do_validation\<close>.\<close>

lemma cmsg_step_ignores_do_validation:
  "cmsg_step (g\<lparr>do_validation := v\<rparr>) st c = cmsg_step g st c"
  by (cases c) (simp add: Let_def)

lemma cmsg_loop_ignores_do_validation:
  "cmsg_loop (g\<lparr>do_validation := v\<rparr>) st cs = cmsg_loop g st cs"
  by (induction cs arbitrary: st) (simp_all only: cmsg_loop.simps cmsg_step_ignores_do_validation)

lemma recv_loop_ignores_do_validation:
  "recv_loop (g\<lparr>do_validation := v\<rparr>) st ms = recv_loop g st ms"
  by (induction ms arbitrary: st)
    (simp_all only: recv_loop.simps cmsg_loop_ignores_do_validation)

text \<open>
  Claim C2 says that with validation enabled the receive loop runs the validator on each
  received region and that the process ends once more than 20 bytes mismatch. The call is
  commented out in \<^verbatim>\<open>do_server\<close>. Here validation is enabled with modulus 7 and one
  fragment of 32 bytes is received: on a region of 32 bytes of value 255
  \<^verbatim>\<open>validate_buffer\<close> ends the process, yet the run copies the fragment, returns its
  token, counts its bytes and returns 0, with no other call.
\<close>

theorem received_region_is_not_validated:
  "do_validation example_globals = 7 \<and>
   validate_buffer 7 0 (replicate 32 255) 0 = Inl (Error1 ''validation failed.'') \<and>
   do_server example_globals example_mem (example_answers example_fragment_stream) =
     Some (Inr (0,
       \<lparr>non_page_aligned_frags = 0, page_aligned_frags = 0, total_received = 32,
        endptr = 32, is_devmem = False,
        trace = example_setup_trace @ example_listen_trace @
                [Recvmsg_devmem, Stderr_recvmsg_ret 32, HipMemcpy_device_to_device 0 0 32,
                 Setsockopt_SO_DEVMEM_DONTNEED \<lparr>token_start = 1, token_count = 1\<rparr>,
                 Stderr_received
                   \<lparr>frag_offset = 0, frag_size = 32, frag_token = 1, dmabuf_id = 5\<rparr> 32,
                 Recvmsg_devmem, Stderr ''client exited'', Stderr ''ncdevmem: ok'',
                 Stderr_frags 0 0, Free, Close 7, Close 6,
                 Ynl_sock_destroy Ynl_netdev_family]\<rparr>))"
  by code_simp

subsection \<open>C3: the return value of the token release\<close>





subsection \<open>Runs of the sender\<close>

lemma completions_simps [simp]:
  "completions [] = []"
  "completions (e # es) = completion e @ completions es"
  "completions (xs @ ys) = completions xs @ completions ys"
  by (simp_all add: completions_def)

lemma sent_vectors_simps [simp]:
  "sent_vectors [] = []"
  "sent_vectors (e # es) = sent_vector e @ sent_vectors es"
  "sent_vectors (xs @ ys) = sent_vectors xs @ sent_vectors ys"
  by (simp_all add: sent_vectors_def)

lemma clamp_line_size_frame [simp]:
  "tx_trace (clamp_line_size n st) = tx_trace st"
  "total_sended (clamp_line_size n st) = total_sended st"
  by (simp_all add: clamp_line_size_def)






subsection \<open>C4: waiting for the completion of a send\<close>





lemmas tx_example_defs = zerocopy_hdr_def errqueue_turn_def idle_turn_def

lemmas tx_const_defs = SOL_IP_def SOL_IPV6_def IP_RECVERR_def IPV6_RECVERR_def
  SO_EE_ORIGIN_ZEROCOPY_def MSG_CTRUNC_def POLLERR_def











subsection \<open>C5: the payload vector of a send\<close>










lemma unat_word_of_int_64: "unat (word_of_int k :: u64) = nat (k mod 2 ^ 64)"
  by (simp add: unat_eq_nat_uint uint_word_of_int)


















subsection \<open>C6: what the loop does with the result of \<^verbatim>\<open>recvmsg\<close>\<close>

text \<open>
  Claim C6. For every iteration of the receive loop: a negative result with
  \<^verbatim>\<open>EAGAIN\<close> or \<^verbatim>\<open>EWOULDBLOCK\<close> goes to the next iteration with nothing printed
  and no counter changed; any other negative result prints \<^verbatim>\<open>perror("recvmsg")\<close> and
  goes to the next iteration; zero leaves the loop without an error; a positive result goes
  on to the control messages, and from there to the next iteration, or to an error. When
  the loop is left through the zero result, \<^verbatim>\<open>do_server\<close> returns 0 after it has
  freed the staging memory, closed both sockets and destroyed the netlink socket of the
  binding (last part).
\<close>

theorem recvmsg_result_dispatch:
  "(rv_ret m < 0 \<and> (rv_errno m = EAGAIN \<or> rv_errno m = EWOULDBLOCK) \<longrightarrow>
      recv_loop g st (m # ms) =
        recv_loop g (st\<lparr>is_devmem := False, trace := trace st @ [Recvmsg_devmem]\<rparr>) ms) \<and>
   (rv_ret m < 0 \<and> rv_errno m \<noteq> EAGAIN \<and> rv_errno m \<noteq> EWOULDBLOCK \<longrightarrow>
      recv_loop g st (m # ms) =
        recv_loop g
          (st\<lparr>is_devmem := False, trace := trace st @ [Recvmsg_devmem, Perror ''recvmsg'']\<rparr>)
          ms) \<and>
   (rv_ret m = 0 \<longrightarrow>
      recv_loop g st (m # ms) =
        Some (Inr (st\<lparr>is_devmem := False,
                     trace := trace st @ [Recvmsg_devmem, Stderr ''client exited'']\<rparr>))) \<and>
   (0 < rv_ret m \<longrightarrow>
      recv_loop g st (m # ms) =
        (case cmsg_loop g
                (st\<lparr>is_devmem := False,
                    trace := trace st @ [Recvmsg_devmem, Stderr_recvmsg_ret (rv_ret m)]\<rparr>)
                (rv_cmsgs m) of
           Inl e \<Rightarrow> Some (Inl e)
         | Inr st1 \<Rightarrow>
             if is_devmem st1 then recv_loop g st1 ms
             else Some (Inl (Error1 ''flow steering error'', st1)))) \<and>
   (server_setup g mem a = Inr (g', server_sin, tr) \<and>
    server_listen mem a server_sin = Inr tr' \<and>
    recv_loop g' (init_state (tr @ tr')) (sv_recvmsg a) = Some (Inr st') \<longrightarrow>
      do_server g mem a =
        Some (Inr (0, st'\<lparr>trace := trace st' @
                        [Stderr ''ncdevmem: ok'',
                         Stderr_frags (page_aligned_frags st') (non_page_aligned_frags st'),
                         Free, Close (sv_accept a), Close (sv_socket a),
                         Ynl_sock_destroy Ynl_netdev_family]\<rparr>)))"
proof -
  have again: "recv_loop g st (m # ms) =
        recv_loop g (st\<lparr>is_devmem := False, trace := trace st @ [Recvmsg_devmem]\<rparr>) ms"
    if "rv_ret m < 0 \<and> (rv_errno m = EAGAIN \<or> rv_errno m = EWOULDBLOCK)"
    using that by (simp add: Let_def emit_def)
  have soft: "recv_loop g st (m # ms) =
        recv_loop g
          (st\<lparr>is_devmem := False, trace := trace st @ [Recvmsg_devmem, Perror ''recvmsg'']\<rparr>)
          ms"
    if "rv_ret m < 0 \<and> rv_errno m \<noteq> EAGAIN \<and> rv_errno m \<noteq> EWOULDBLOCK"
    using that by (simp add: Let_def emit_def)
  have closed: "recv_loop g st (m # ms) =
        Some (Inr (st\<lparr>is_devmem := False,
                     trace := trace st @ [Recvmsg_devmem, Stderr ''client exited'']\<rparr>))"
    if "rv_ret m = 0"
    using that by (simp add: Let_def emit_def)
  have data: "recv_loop g st (m # ms) =
        (case cmsg_loop g
                (st\<lparr>is_devmem := False,
                    trace := trace st @ [Recvmsg_devmem, Stderr_recvmsg_ret (rv_ret m)]\<rparr>)
                (rv_cmsgs m) of
           Inl e \<Rightarrow> Some (Inl e)
         | Inr st1 \<Rightarrow>
             if is_devmem st1 then recv_loop g st1 ms
             else Some (Inl (Error1 ''flow steering error'', st1)))"
    if "0 < rv_ret m"
    using that by (simp add: Let_def emit_def split: sum.split)
  have exit: "do_server g mem a =
        Some (Inr (0, st'\<lparr>trace := trace st' @
                        [Stderr ''ncdevmem: ok'',
                         Stderr_frags (page_aligned_frags st') (non_page_aligned_frags st'),
                         Free, Close (sv_accept a), Close (sv_socket a),
                         Ynl_sock_destroy Ynl_netdev_family]\<rparr>))"
    if "server_setup g mem a = Inr (g', server_sin, tr) \<and>
        server_listen mem a server_sin = Inr tr' \<and>
        recv_loop g' (init_state (tr @ tr')) (sv_recvmsg a) = Some (Inr st')"
    using that by (simp add: do_server_def server_cleanup_def)
  from again soft closed data exit show ?thesis by blast
qed

text \<open>The four results at the head of short streams, and the run of
  \<^verbatim>\<open>do_server\<close> on the stream with all of them.\<close>

theorem recvmsg_result_dispatch_witness:
  "recv_loop example_globals (init_state [])
     [\<lparr>rv_ret = - 1, rv_errno = 11, rv_cmsgs = []\<rparr>,
      \<lparr>rv_ret = 0, rv_errno = 0, rv_cmsgs = []\<rparr>] =
     Some (Inr ((init_state [])
       \<lparr>trace := [Recvmsg_devmem, Recvmsg_devmem, Stderr ''client exited'']\<rparr>)) \<and>
   recv_loop example_globals (init_state [])
     [\<lparr>rv_ret = - 1, rv_errno = 104, rv_cmsgs = []\<rparr>,
      \<lparr>rv_ret = 0, rv_errno = 0, rv_cmsgs = []\<rparr>] =
     Some (Inr ((init_state [])
       \<lparr>trace := [Recvmsg_devmem, Perror ''recvmsg'', Recvmsg_devmem,
                  Stderr ''client exited'']\<rparr>)) \<and>
   recv_loop example_globals (init_state [])
     [\<lparr>rv_ret = 0, rv_errno = 0, rv_cmsgs = []\<rparr>,
      \<lparr>rv_ret = 4096, rv_errno = 0, rv_cmsgs = [(dmabuf_hdr 5 0 4096 1, 1)]\<rparr>] =
     Some (Inr ((init_state []) \<lparr>trace := [Recvmsg_devmem, Stderr ''client exited'']\<rparr>)) \<and>
   recv_loop example_globals (init_state [])
     [\<lparr>rv_ret = 4096, rv_errno = 0, rv_cmsgs = [(dmabuf_hdr 5 0 4096 1, 1)]\<rparr>] = None \<and>
   do_server example_globals example_mem (example_answers example_retries) =
     Some (Inr (0,
       \<lparr>non_page_aligned_frags = 0, page_aligned_frags = 0, total_received = 4096,
        endptr = 4096, is_devmem = False,
        trace = example_setup_trace @ example_listen_trace @ example_loop_trace @
                [Stderr ''ncdevmem: ok'', Stderr_frags 0 0, Free, Close 7, Close 6,
                 Ynl_sock_destroy Ynl_netdev_family]\<rparr>))"
proof -
  let ?close = "\<lparr>rv_ret = 0, rv_errno = 0, rv_cmsgs = []\<rparr>"
  let ?data = "\<lparr>rv_ret = 4096, rv_errno = 0, rv_cmsgs = [(dmabuf_hdr 5 0 4096 1, 1)]\<rparr>"
  let ?again = "\<lparr>rv_ret = - 1, rv_errno = 11, rv_cmsgs = []\<rparr>"
  let ?soft = "\<lparr>rv_ret = - 1, rv_errno = 104, rv_cmsgs = []\<rparr>"
  have h1: "rv_ret ?again < 0 \<and> (rv_errno ?again = EAGAIN \<or> rv_errno ?again = EWOULDBLOCK)"
    by (simp add: EAGAIN_def)
  have h2: "rv_ret ?soft < 0 \<and> rv_errno ?soft \<noteq> EAGAIN \<and> rv_errno ?soft \<noteq> EWOULDBLOCK"
    by (simp add: EAGAIN_def EWOULDBLOCK_def)
  have h3: "rv_ret ?close = 0" by simp
  have h4: "0 < rv_ret ?data" by simp
  have h5: "server_setup example_globals example_mem (example_answers example_retries) =
                Inr (example_globals, example_sin, example_setup_trace) \<and>
            server_listen example_mem (example_answers example_retries) example_sin =
                Inr example_listen_trace \<and>
            recv_loop example_globals (init_state (example_setup_trace @ example_listen_trace))
              (sv_recvmsg (example_answers example_retries)) =
                Some (Inr \<lparr>non_page_aligned_frags = 0, page_aligned_frags = 0,
                  total_received = 4096, endptr = 4096, is_devmem = False,
                  trace = example_setup_trace @ example_listen_trace @ example_loop_trace\<rparr>)"
    by code_simp
  note t = recvmsg_result_dispatch
  have w1: "recv_loop example_globals (init_state []) [?again, ?close] =
     Some (Inr ((init_state [])
       \<lparr>trace := [Recvmsg_devmem, Recvmsg_devmem, Stderr ''client exited'']\<rparr>))"
    using t [THEN conjunct1, THEN mp, OF h1, of example_globals "init_state []" "[?close]"]
    by (simp add: init_state_def Let_def emit_def)
  have w2: "recv_loop example_globals (init_state []) [?soft, ?close] =
     Some (Inr ((init_state [])
       \<lparr>trace := [Recvmsg_devmem, Perror ''recvmsg'', Recvmsg_devmem,
                  Stderr ''client exited'']\<rparr>))"
    using t [THEN conjunct2, THEN conjunct1, THEN mp, OF h2,
        of example_globals "init_state []" "[?close]"]
    by (simp add: init_state_def Let_def emit_def)
  have w3: "recv_loop example_globals (init_state []) [?close, ?data] =
     Some (Inr ((init_state []) \<lparr>trace := [Recvmsg_devmem, Stderr ''client exited'']\<rparr>))"
    using t [THEN conjunct2, THEN conjunct2, THEN conjunct1, THEN mp, OF h3,
        of example_globals "init_state []" "[?data]"]
    by (simp add: init_state_def)
  have "cmsg_loop example_globals
          ((init_state [])\<lparr>is_devmem := False,
             trace := trace (init_state []) @ [Recvmsg_devmem, Stderr_recvmsg_ret (rv_ret ?data)]\<rparr>)
          (rv_cmsgs ?data) =
        Inr \<lparr>non_page_aligned_frags = 0, page_aligned_frags = 0, total_received = 4096,
          endptr = 4096, is_devmem = True,
          trace = [Recvmsg_devmem, Stderr_recvmsg_ret 4096, HipMemcpy_device_to_device 0 0 4096,
            Setsockopt_SO_DEVMEM_DONTNEED \<lparr>token_start = 1, token_count = 1\<rparr>,
            Stderr_received \<lparr>frag_offset = 0, frag_size = 4096, frag_token = 1, dmabuf_id = 5\<rparr>
              4096]\<rparr>"
    by code_simp
  with t [THEN conjunct2, THEN conjunct2, THEN conjunct2, THEN conjunct1, THEN mp, OF h4,
        of example_globals "init_state []" "[]"]
  have w4: "recv_loop example_globals (init_state []) [?data] = None"
    by simp
  have w5: "do_server example_globals example_mem (example_answers example_retries) =
     Some (Inr (0,
       \<lparr>non_page_aligned_frags = 0, page_aligned_frags = 0, total_received = 4096,
        endptr = 4096, is_devmem = False,
        trace = example_setup_trace @ example_listen_trace @ example_loop_trace @
                [Stderr ''ncdevmem: ok'', Stderr_frags 0 0, Free, Close 7, Close 6,
                 Ynl_sock_destroy Ynl_netdev_family]\<rparr>))"
    using t [THEN conjunct2, THEN conjunct2, THEN conjunct2, THEN conjunct2, THEN mp, OF h5]
    by (simp add: example_answers_def)
  from w1 w2 w3 w4 w5 show ?thesis by (intro conjI)
qed


subsection \<open>C7: header split and its read-back\<close>

text \<open>
  Claim C7, as stated, has \<^verbatim>\<open>configure_headersplit\<close> succeed only when a follow-up
  read observes the requested value, and makes a disagreeing read-back fatal. It fails on
  the code: with header split requested on, a set request that succeeds and a read-back
  that says off, the function returns 0, and so it does when the read-back fails;
  \<^verbatim>\<open>server_setup\<close> then goes on to the binding.
\<close>

theorem headersplit_readback_off_counterexample:
  "configure_headersplit example_globals \<lparr>hs_sock = True, hs_set_ret = 0, hs_get_rsp = Some 0\<rparr> True =
     (0, [Ynl_sock_create Ynl_ethtool_family, Ethtool_rings_set 3 2, Ethtool_rings_get 3,
          Stderr_header_split ''off'', Ynl_sock_destroy Ynl_ethtool_family]) \<and>
   configure_headersplit example_globals \<lparr>hs_sock = True, hs_set_ret = 0, hs_get_rsp = None\<rparr> True =
     (0, [Ynl_sock_create Ynl_ethtool_family, Ethtool_rings_set 3 2, Ethtool_rings_get 3,
          Ynl_sock_destroy Ynl_ethtool_family]) \<and>
   isl (server_setup example_globals example_mem
     ((example_answers example_stream)
        \<lparr>sv_headersplit := \<lparr>hs_sock = True, hs_set_ret = 0, hs_get_rsp = Some 0\<rparr>\<rparr>)) = False"
  by code_simp

text \<open>
  Claim C7, amended. \<^verbatim>\<open>configure_headersplit(on)\<close> sends a rings-set request with
  TCP data split 2 for on and 0 for off and returns the result of that request (or -1 when
  no netlink socket could be made). Only when the request returned 0 does it read the ring
  configuration back, and it prints the value it observed when the read gives a response.
  The return value does not depend on what the read-back gives.
\<close>

theorem headersplit_returns_set_result:
  "(\<not> hs_sock a \<longrightarrow>
      configure_headersplit g a on =
        (- 1, [Ynl_sock_create Ynl_ethtool_family, Stderr ''YNL: (yerr.msg)''])) \<and>
   (hs_sock a \<and> hs_set_ret a \<noteq> 0 \<longrightarrow>
      configure_headersplit g a on =
        (hs_set_ret a,
         [Ynl_sock_create Ynl_ethtool_family,
          Ethtool_rings_set (ifindex g) (if on then 2 else 0)] @
         (if hs_set_ret a < 0 then [Stderr ''YNL failed: (ys->err.msg)''] else []) @
         [Ynl_sock_destroy Ynl_ethtool_family])) \<and>
   (hs_sock a \<and> hs_set_ret a = 0 \<longrightarrow>
      configure_headersplit g a on =
        (0,
         [Ynl_sock_create Ynl_ethtool_family,
          Ethtool_rings_set (ifindex g) (if on then 2 else 0),
          Ethtool_rings_get (ifindex g)] @
         (case hs_get_rsp a of
            None \<Rightarrow> []
          | Some v \<Rightarrow> [Stderr_header_split (tcp_data_split_str (uint v))]) @
         [Ynl_sock_destroy Ynl_ethtool_family])) \<and>
   fst (configure_headersplit g (a\<lparr>hs_get_rsp := v'\<rparr>) on) = fst (configure_headersplit g a on)"
  by (simp add: configure_headersplit_def Let_def)

text \<open>No socket; a set request refused with -95; header split set on and read back on;
  header split set off and read back on.\<close>

theorem headersplit_returns_set_result_witness:
  "configure_headersplit example_globals \<lparr>hs_sock = False, hs_set_ret = 0, hs_get_rsp = None\<rparr> True =
     (- 1, [Ynl_sock_create Ynl_ethtool_family, Stderr ''YNL: (yerr.msg)'']) \<and>
   configure_headersplit example_globals \<lparr>hs_sock = True, hs_set_ret = - 95, hs_get_rsp = None\<rparr> True =
     (- 95, [Ynl_sock_create Ynl_ethtool_family, Ethtool_rings_set 3 2,
             Stderr ''YNL failed: (ys->err.msg)'', Ynl_sock_destroy Ynl_ethtool_family]) \<and>
   configure_headersplit example_globals \<lparr>hs_sock = True, hs_set_ret = 0, hs_get_rsp = Some 2\<rparr> True =
     (0, [Ynl_sock_create Ynl_ethtool_family, Ethtool_rings_set 3 2, Ethtool_rings_get 3,
          Stderr_header_split ''on'', Ynl_sock_destroy Ynl_ethtool_family]) \<and>
   configure_headersplit example_globals \<lparr>hs_sock = True, hs_set_ret = 0, hs_get_rsp = Some 2\<rparr> False =
     (0, [Ynl_sock_create Ynl_ethtool_family, Ethtool_rings_set 3 0, Ethtool_rings_get 3,
          Stderr_header_split ''on'', Ynl_sock_destroy Ynl_ethtool_family])"
proof -
  note t = headersplit_returns_set_result
  have h1: "\<not> hs_sock \<lparr>hs_sock = False, hs_set_ret = 0, hs_get_rsp = None\<rparr>" by simp
  have h2: "hs_sock \<lparr>hs_sock = True, hs_set_ret = - 95, hs_get_rsp = None\<rparr> \<and>
            hs_set_ret \<lparr>hs_sock = True, hs_set_ret = - 95, hs_get_rsp = None\<rparr> \<noteq> 0" by simp
  have h3: "hs_sock \<lparr>hs_sock = True, hs_set_ret = 0, hs_get_rsp = Some 2\<rparr> \<and>
            hs_set_ret \<lparr>hs_sock = True, hs_set_ret = 0, hs_get_rsp = Some 2\<rparr> = 0" by simp
  from t [THEN conjunct1, THEN mp, OF h1, of example_globals True]
       t [THEN conjunct2, THEN conjunct1, THEN mp, OF h2, of example_globals True]
       t [THEN conjunct2, THEN conjunct2, THEN conjunct1, THEN mp, OF h3, of example_globals True]
       t [THEN conjunct2, THEN conjunct2, THEN conjunct1, THEN mp, OF h3, of example_globals False]
  show ?thesis by (simp add: example_globals_def)
qed

subsection \<open>C8: the NIC is configured and bound before the first receive\<close>

text \<open>
  Claim C8, as stated, has header split on before the bind. The code asks for header split
  and goes on when the request is accepted; what it reads back is printed and not compared.
  In the run below the device reports header split off after the request: the queues are
  bound all the same, and the stream is received into the binding.
\<close>

theorem header_split_off_before_bind_counterexample:
  "(case do_server example_globals example_mem
           ((example_answers example_stream)
              \<lparr>sv_headersplit := \<lparr>hs_sock = True, hs_set_ret = 0, hs_get_rsp = Some 0\<rparr>\<rparr>) of
      Some (Inr (r, st)) \<Rightarrow>
        r = 0 \<and> total_received st = 8192 \<and>
        take 14 (trace st) =
          [System (Ethtool_K_ntuple False), System (Ethtool_K_ntuple True),
           System Ethtool_delete_filters,
           Ynl_sock_create Ynl_ethtool_family, Ethtool_rings_set 3 2, Ethtool_rings_get 3,
           Stderr_header_split ''off'', Ynl_sock_destroy Ynl_ethtool_family,
           System (Ethtool_X_equal 8),
           System (Ethtool_N_5tuple ''tcp4'' None ''192.168.1.4'' ''5201'' 8),
           Sleep 1,
           Ynl_sock_create Ynl_netdev_family,
           Netdev_bind_rx 3 4
             [\<lparr>present_type = True, present_id = True, q_type = NETDEV_QUEUE_TYPE_RX,
               q_id = 8\<rparr>],
           Stderr_dmabuf_id 5] \<and>
        length (filter (\<lambda>e. e = Recvmsg_devmem) (trace st)) = 2
    | _ \<Rightarrow> False)"
  by code_simp


lemma reset_flow_steering_no_recv [simp]: "Recvmsg_devmem \<notin> set (snd reset_flow_steering)"
  by (simp add: reset_flow_steering_def)

lemma configure_headersplit_no_recv [simp]:
  "Recvmsg_devmem \<notin> set (snd (configure_headersplit g a on))"
  by (simp add: configure_headersplit_def Let_def split: option.split)

lemma configure_rss_no_recv [simp]: "Recvmsg_devmem \<notin> set (snd (configure_rss g sys))"
  by (simp add: configure_rss_def)

lemma configure_flow_steering_no_recv [simp]:
  "Recvmsg_devmem \<notin> set (snd (configure_flow_steering g sys server_sin))"
  by (simp add: configure_flow_steering_def Let_def split: in6_addr.split)

lemma bind_rx_queue_no_recv [simp]:
  "Recvmsg_devmem \<notin> set (snd (snd (bind_rx_queue g a i f q)))"
  by (simp add: bind_rx_queue_def Let_def split: option.split)

lemma server_setup_steps:
  fixes g :: globals and mem :: memory_buffer and a :: server_answers
  assumes p: "parse_address (sv_pton6 a) (sv_pton4 a) (server_ip g) (sv_atoi a (port g)) =
                Some server_sin"
  defines "hs \<equiv> configure_headersplit g (sv_headersplit a) True"
    and "rss \<equiv> configure_rss g (sv_system a)"
    and "fl \<equiv> configure_flow_steering g (sv_system a) server_sin"
    and "bd \<equiv> bind_rx_queue g (sv_bind_rx a) (ifindex g) (fd mem) (create_queues g)"
  shows "server_setup g mem a =
    (if fst hs \<noteq> 0
     then Inl (Error1 ''Failed to enable TCP header split'', snd reset_flow_steering @ snd hs)
     else if fst rss \<noteq> 0
     then Inl (Error1 ''Failed to configure rss'',
               snd reset_flow_steering @ snd hs @ snd rss)
     else if fst fl \<noteq> 0
     then Inl (Error1 ''Failed to configure flow steering'',
               snd reset_flow_steering @ snd hs @ snd rss @ snd fl)
     else if fst bd \<noteq> 0
     then Inl (Error1 ''Failed to bind'',
               snd reset_flow_steering @ snd hs @ snd rss @ snd fl @ [Sleep 1] @ snd (snd bd))
     else Inr (fst (snd bd), server_sin,
               snd reset_flow_steering @ snd hs @ snd rss @ snd fl @ [Sleep 1] @ snd (snd bd)))"
  unfolding hs_def rss_def fl_def bd_def
  by (simp add: server_setup_def p Let_def split_def reset_flow_steering_def)

lemma server_setup_no_recv:
  "server_setup g mem a = Inr (g', server_sin, tr) \<Longrightarrow> Recvmsg_devmem \<notin> set tr"
  "server_setup g mem a = Inl (e, tr) \<Longrightarrow> Recvmsg_devmem \<notin> set tr"
  by (auto simp add: server_setup_def Let_def split_def split: option.splits if_splits)

lemma server_listen_no_recv:
  "server_listen mem a server_sin = Inl (e, tr) \<Longrightarrow> Recvmsg_devmem \<notin> set tr"
  by (auto simp add: server_listen_def Let_def split: if_splits)

lemma cmsg_step_trace_grows:
  "\<exists>more. trace (state_of (cmsg_step g st c)) = trace st @ more"
  by (cases c)
    (simp add: Let_def emit_def copy_and_release_def)

lemma cmsg_loop_trace_grows:
  "\<exists>more. trace (state_of (cmsg_loop g st cs)) = trace st @ more"
proof (induction cs arbitrary: st)
  case Nil
  show ?case by simp
next
  case (Cons c cs)
  from cmsg_step_trace_grows [of g st c] obtain m1 where
    m1: "trace (state_of (cmsg_step g st c)) = trace st @ m1" by blast
  show ?case
  proof (cases "cmsg_step g st c")
    case (Inl e)
    with m1 show ?thesis by simp
  next
    case (Inr st')
    from Cons.IH [of st'] obtain m2 where
      "trace (state_of (cmsg_loop g st' cs)) = trace st' @ m2" by blast
    with m1 Inr show ?thesis by simp
  qed
qed

lemma recv_loop_trace_grows:
  "recv_loop g st ms = Some res \<Longrightarrow> \<exists>more. trace (state_of res) = trace st @ more"
proof (induction ms arbitrary: st)
  case Nil
  then show ?case by simp
next
  case (Cons m ms)
  let ?st0 = "emit Recvmsg_devmem (st\<lparr>is_devmem := False\<rparr>)"
  consider (again) "rv_ret m < 0" "rv_errno m = EAGAIN \<or> rv_errno m = EWOULDBLOCK"
    | (soft) "rv_ret m < 0" "\<not> (rv_errno m = EAGAIN \<or> rv_errno m = EWOULDBLOCK)"
    | (closed) "rv_ret m = 0"
    | (data) "0 < rv_ret m"
    by linarith
  then show ?case
  proof cases
    case again
    then have "recv_loop g st (m # ms) = recv_loop g ?st0 ms" by (simp add: Let_def)
    with Cons.prems Cons.IH [of ?st0] show ?thesis by (auto simp add: emit_def)
  next
    case soft
    then have "recv_loop g st (m # ms) = recv_loop g (emit (Perror ''recvmsg'') ?st0) ms"
      by (simp add: Let_def)
    with Cons.prems Cons.IH [of "emit (Perror ''recvmsg'') ?st0"] show ?thesis
      by (auto simp add: emit_def)
  next
    case closed
    then have "recv_loop g st (m # ms) = Some (Inr (emit (Stderr ''client exited'') ?st0))"
      by (simp add: Let_def)
    with Cons.prems show ?thesis by (auto simp add: emit_def)
  next
    case data
    let ?st1 = "emit (Stderr_recvmsg_ret (rv_ret m)) ?st0"
    from cmsg_loop_trace_grows [of g ?st1 "rv_cmsgs m"] obtain m1 where
      m1: "trace (state_of (cmsg_loop g ?st1 (rv_cmsgs m))) = trace st @ m1"
      by (auto simp add: emit_def)
    show ?thesis
    proof (cases "cmsg_loop g ?st1 (rv_cmsgs m)")
      case (Inl e)
      with data have "recv_loop g st (m # ms) = Some (Inl e)" by (simp add: Let_def)
      with Cons.prems m1 Inl show ?thesis by auto
    next
      case (Inr st2)
      show ?thesis
      proof (cases "is_devmem st2")
        case True
        with data Inr have "recv_loop g st (m # ms) = recv_loop g st2 ms" by (simp add: Let_def)
        with Cons.prems Cons.IH [of st2] m1 Inr show ?thesis by auto
      next
        case False
        with data Inr have "recv_loop g st (m # ms) = Some (Inl (Error1 ''flow steering error'', st2))"
          by (simp add: Let_def)
        with Cons.prems m1 Inr show ?thesis by auto
      qed
    qed
  qed
qed

lemma configure_headersplit_ok:
  "fst (configure_headersplit g a on) = 0 \<Longrightarrow>
   snd (configure_headersplit g a on) =
     [Ynl_sock_create Ynl_ethtool_family, Ethtool_rings_set (ifindex g) (if on then 2 else 0),
      Ethtool_rings_get (ifindex g)] @
     (case hs_get_rsp a of
        None \<Rightarrow> []
      | Some v \<Rightarrow> [Stderr_header_split (tcp_data_split_str (uint v))]) @
     [Ynl_sock_destroy Ynl_ethtool_family]"
  by (simp add: configure_headersplit_def Let_def split: if_splits)

lemma bind_rx_queue_ok:
  "fst (bind_rx_queue g a i f q) = 0 \<Longrightarrow>
   \<exists>n. bd_rsp a = Some (Some n) \<and>
       bind_rx_queue g a i f q =
         (0, g\<lparr>g_dmabuf_id := n\<rparr>,
          [Ynl_sock_create Ynl_netdev_family, Netdev_bind_rx i f q, Stderr_dmabuf_id n])"
  by (simp add: bind_rx_queue_def Let_def split: if_splits option.splits)

lemma server_setup_order:
  assumes ok: "server_setup g mem a = Inr (g', server_sin, tr)"
  shows "\<exists>n. bd_rsp (sv_bind_rx a) = Some (Some n) \<and> g' = g\<lparr>g_dmabuf_id := n\<rparr> \<and>
    tr = [System (Ethtool_K_ntuple False), System (Ethtool_K_ntuple True),
          System Ethtool_delete_filters,
          Ynl_sock_create Ynl_ethtool_family, Ethtool_rings_set (ifindex g) 2,
          Ethtool_rings_get (ifindex g)] @
         (case hs_get_rsp (sv_headersplit a) of
            None \<Rightarrow> []
          | Some v \<Rightarrow> [Stderr_header_split (tcp_data_split_str (uint v))]) @
         [Ynl_sock_destroy Ynl_ethtool_family, System (Ethtool_X_equal (start_queue g))] @
         snd (configure_flow_steering g (sv_system a) server_sin) @
         [Sleep 1, Ynl_sock_create Ynl_netdev_family,
          Netdev_bind_rx (ifindex g) (fd mem) (create_queues g), Stderr_dmabuf_id n]"
proof -
  from ok have p: "parse_address (sv_pton6 a) (sv_pton4 a) (server_ip g) (sv_atoi a (port g)) =
                Some server_sin"
    by (simp add: server_setup_def Let_def split_def split: option.splits if_splits)
  note steps = server_setup_steps [OF p, of mem]
  let ?hs = "configure_headersplit g (sv_headersplit a) True"
  let ?bd = "bind_rx_queue g (sv_bind_rx a) (ifindex g) (fd mem) (create_queues g)"
  from ok steps have z: "fst ?hs = 0" "fst (configure_rss g (sv_system a)) = 0"
    "fst (configure_flow_steering g (sv_system a) server_sin) = 0" "fst ?bd = 0"
    by (simp_all split: if_splits)
  from ok steps z have tr: "g' = fst (snd ?bd)"
    "tr = snd reset_flow_steering @ snd ?hs @ snd (configure_rss g (sv_system a)) @
          snd (configure_flow_steering g (sv_system a) server_sin) @ [Sleep 1] @ snd (snd ?bd)"
    by simp_all
  from bind_rx_queue_ok [OF z(4)] obtain n where
    n: "bd_rsp (sv_bind_rx a) = Some (Some n)"
       "?bd = (0, g\<lparr>g_dmabuf_id := n\<rparr>,
          [Ynl_sock_create Ynl_netdev_family,
           Netdev_bind_rx (ifindex g) (fd mem) (create_queues g), Stderr_dmabuf_id n])"
    by blast
  from tr n configure_headersplit_ok [OF z(1)]
  show ?thesis
    by (simp add: reset_flow_steering_def configure_rss_def)
qed

lemma do_server_receives_after_setup:
  assumes run: "do_server g mem a = Some res"
    and rc: "Recvmsg_devmem \<in> set (trace (final_state res))"
  shows "\<exists>g' server_sin tr rest.
           server_setup g mem a = Inr (g', server_sin, tr) \<and>
           trace (final_state res) = tr @ rest \<and> Recvmsg_devmem \<notin> set tr"
proof (cases "server_setup g mem a")
  case (Inl x)
  obtain e tr where x: "x = (e, tr)" by (cases x)
  with Inl run have "res = Inl (e, init_state tr)" by (simp add: do_server_def)
  with rc server_setup_no_recv(2) [of g mem a e tr] Inl x show ?thesis
    by (simp add: init_state_def)
next
  case (Inr y)
  obtain g' server_sin tr where y: "y = (g', server_sin, tr)" by (cases y)
  with Inr have su: "server_setup g mem a = Inr (g', server_sin, tr)" by simp
  note nr = server_setup_no_recv(1) [OF su]
  show ?thesis
  proof (cases "server_listen mem a server_sin")
    case (Inl x)
    obtain e tr' where x: "x = (e, tr')" by (cases x)
    with Inl su run have "res = Inl (e, init_state (tr @ tr'))" by (simp add: do_server_def)
    with su nr show ?thesis by (simp add: init_state_def)
  next
    case li: (Inr tr')
    show ?thesis
    proof (cases "recv_loop g' (init_state (tr @ tr')) (sv_recvmsg a)")
      case None
      with su li run show ?thesis by (simp add: do_server_def)
    next
      case (Some out)
      from recv_loop_trace_grows [OF Some] obtain more where
        more: "trace (state_of out) = tr @ tr' @ more" by (auto simp add: init_state_def)
      show ?thesis
      proof (cases out)
        case (Inl e)
        with su li Some run have "res = Inl e" by (simp add: do_server_def)
        with more Inl su nr show ?thesis by (cases e) auto
      next
        case (Inr st)
        with su li Some run have "res = Inr (0, server_cleanup a st)" by (simp add: do_server_def)
        with more Inr su nr show ?thesis by (simp add: server_cleanup_def)
      qed
    qed
  qed
qed

lemma do_server_setup_Inl:
  "server_setup g mem a = Inl (e, tr) \<Longrightarrow> do_server g mem a = Some (Inl (e, init_state tr))"
  by (simp add: do_server_def)

lemma do_server_starts_with_setup:
  assumes run: "do_server g mem a = Some res"
    and su: "server_setup g mem a = Inr (g1, sin1, tr1)"
  shows "\<exists>rest. trace (final_state res) = tr1 @ rest"
proof (cases "server_listen mem a sin1")
  case (Inl x)
  obtain e tr' where x: "x = (e, tr')" by (cases x)
  with Inl su run have "res = Inl (e, init_state (tr1 @ tr'))" by (simp add: do_server_def)
  then show ?thesis by (simp add: init_state_def)
next
  case li: (Inr tr')
  show ?thesis
  proof (cases "recv_loop g1 (init_state (tr1 @ tr')) (sv_recvmsg a)")
    case None
    with su li run show ?thesis by (simp add: do_server_def)
  next
    case (Some out)
    from recv_loop_trace_grows [OF Some] obtain more where
      more: "trace (state_of out) = tr1 @ tr' @ more" by (auto simp add: init_state_def)
    show ?thesis
    proof (cases out)
      case (Inl e)
      with su li Some run have "res = Inl e" by (simp add: do_server_def)
      with more Inl show ?thesis by (cases e) auto
    next
      case (Inr st)
      with su li Some run have "res = Inr (0, server_cleanup a st)" by (simp add: do_server_def)
      with more Inr show ?thesis by (simp add: server_cleanup_def)
    qed
  qed
qed

lemma server_setup_accepted:
  "server_setup g mem a = Inr (g', server_sin, tr) \<Longrightarrow>
   hs_sock (sv_headersplit a) \<and> hs_set_ret (sv_headersplit a) = 0"
  by (auto simp add: server_setup_def configure_headersplit_def Let_def split_def
      split: option.splits if_splits)

text \<open>
  Claim C8, amended. After the server address is parsed, \<^verbatim>\<open>do_server\<close> resets flow
  steering, asks for header split, configures RSS, installs the flow rule, sleeps one second
  and binds the RX queues, in this order. A nonzero result of the header split, of the RSS
  command, of the flow rule or of the bind ends the process with the message of that step,
  the later steps not run; the three commands of the flow-steering reset are run and their
  exit status is not looked at (first and second part). A setup that fails is the end of
  \<^verbatim>\<open>do_server\<close>: it ends with the error of the setup and has made no
  \<^verbatim>\<open>recvmsg\<close> call (third part). When the setup succeeds its calls are exactly the
  listed ones: the rings-set request with value 2 was accepted, with the result 0, before
  the bind request is made, while the value read back after it, whatever it is, is printed
  only (fourth part). In every run of \<^verbatim>\<open>do_server\<close> that calls \<^verbatim>\<open>recvmsg\<close>,
  the calls of the successful setup, the bind included, come first and no
  \<^verbatim>\<open>recvmsg\<close> is among them (fifth part); and every run after a successful setup
  begins with the calls of the setup (sixth part).
\<close>

theorem nic_sequence_before_receive:
  "(parse_address (sv_pton6 a) (sv_pton4 a) (server_ip g) (sv_atoi a (port g)) = None \<longrightarrow>
      server_setup g mem a = Inl (Error1 ''parse server address'', []) \<and>
      do_server g mem a = Some (Inl (Error1 ''parse server address'', init_state []))) \<and>
   (parse_address (sv_pton6 a) (sv_pton4 a) (server_ip g) (sv_atoi a (port g)) =
      Some server_sin \<longrightarrow>
      server_setup g mem a =
        (let reset = [System (Ethtool_K_ntuple False), System (Ethtool_K_ntuple True),
                      System Ethtool_delete_filters];
             hs = configure_headersplit g (sv_headersplit a) True;
             rss = configure_rss g (sv_system a);
             fl = configure_flow_steering g (sv_system a) server_sin;
             bd = bind_rx_queue g (sv_bind_rx a) (ifindex g) (fd mem) (create_queues g)
         in
         if fst hs \<noteq> 0
         then Inl (Error1 ''Failed to enable TCP header split'', reset @ snd hs)
         else if fst rss \<noteq> 0
         then Inl (Error1 ''Failed to configure rss'', reset @ snd hs @ snd rss)
         else if fst fl \<noteq> 0
         then Inl (Error1 ''Failed to configure flow steering'',
                   reset @ snd hs @ snd rss @ snd fl)
         else if fst bd \<noteq> 0
         then Inl (Error1 ''Failed to bind'',
                   reset @ snd hs @ snd rss @ snd fl @ [Sleep 1] @ snd (snd bd))
         else Inr (fst (snd bd), server_sin,
                   reset @ snd hs @ snd rss @ snd fl @ [Sleep 1] @ snd (snd bd)))) \<and>
   (server_setup g mem a = Inl (e, tr0) \<longrightarrow>
      do_server g mem a = Some (Inl (e, init_state tr0)) \<and> Recvmsg_devmem \<notin> set tr0) \<and>
   (server_setup g mem a = Inr (g', server_sin, tr) \<longrightarrow>
      hs_sock (sv_headersplit a) \<and> hs_set_ret (sv_headersplit a) = 0 \<and>
      (\<exists>n. bd_rsp (sv_bind_rx a) = Some (Some n) \<and> g' = g\<lparr>g_dmabuf_id := n\<rparr> \<and>
         tr = [System (Ethtool_K_ntuple False), System (Ethtool_K_ntuple True),
               System Ethtool_delete_filters,
               Ynl_sock_create Ynl_ethtool_family, Ethtool_rings_set (ifindex g) 2,
               Ethtool_rings_get (ifindex g)] @
              (case hs_get_rsp (sv_headersplit a) of
                 None \<Rightarrow> []
               | Some v \<Rightarrow> [Stderr_header_split (tcp_data_split_str (uint v))]) @
              [Ynl_sock_destroy Ynl_ethtool_family, System (Ethtool_X_equal (start_queue g))] @
              snd (configure_flow_steering g (sv_system a) server_sin) @
              [Sleep 1, Ynl_sock_create Ynl_netdev_family,
               Netdev_bind_rx (ifindex g) (fd mem) (create_queues g), Stderr_dmabuf_id n])) \<and>
   (do_server g mem a = Some res \<and> Recvmsg_devmem \<in> set (trace (final_state res)) \<longrightarrow>
      (\<exists>g1 sin1 tr1 rest.
         server_setup g mem a = Inr (g1, sin1, tr1) \<and>
         trace (final_state res) = tr1 @ rest \<and> Recvmsg_devmem \<notin> set tr1)) \<and>
   (do_server g mem a = Some res \<and> server_setup g mem a = Inr (g', server_sin, tr) \<longrightarrow>
      (\<exists>rest. trace (final_state res) = tr @ rest))"
proof -
  have none: "server_setup g mem a = Inl (Error1 ''parse server address'', []) \<and>
      do_server g mem a = Some (Inl (Error1 ''parse server address'', init_state []))"
    if "parse_address (sv_pton6 a) (sv_pton4 a) (server_ip g) (sv_atoi a (port g)) = None"
    using that by (simp add: server_setup_def do_server_def)
  note some = server_setup_steps [of a g server_sin mem, unfolded reset_flow_steering_def snd_conv]
  have failed: "do_server g mem a = Some (Inl (e, init_state tr0)) \<and> Recvmsg_devmem \<notin> set tr0"
    if "server_setup g mem a = Inl (e, tr0)"
    using that do_server_setup_Inl [of g mem a e tr0] server_setup_no_recv(2) [of g mem a e tr0]
    by blast
  note accepted = server_setup_accepted [of g mem a g' server_sin tr]
  note order = server_setup_order [of g mem a g' server_sin tr]
  note recv = do_server_receives_after_setup [of g mem a res]
  note starts = do_server_starts_with_setup [of g mem a res g' server_sin tr]
  from none some failed accepted order recv starts show ?thesis unfolding Let_def by blast
qed

text \<open>An address that does not parse; a refused rings-set request, which ends
  \<^verbatim>\<open>do_server\<close> before the RSS command; every command but the RSS one failing, so
  that the reset is passed and the flow rule is fatal; the run in which all succeed, its
  accepted request, and its calls up to the first \<^verbatim>\<open>recvmsg\<close>.\<close>

theorem nic_sequence_before_receive_witness:
  "do_server example_globals example_mem
     ((example_answers example_retries)\<lparr>sv_pton4 := (\<lambda>s. False)\<rparr>) =
     Some (Inl (Error1 ''parse server address'', init_state [])) \<and>
   server_setup example_globals example_mem
     ((example_answers example_retries)
        \<lparr>sv_headersplit := \<lparr>hs_sock = True, hs_set_ret = - 95, hs_get_rsp = None\<rparr>\<rparr>) =
     Inl (Error1 ''Failed to enable TCP header split'',
          [System (Ethtool_K_ntuple False), System (Ethtool_K_ntuple True),
           System Ethtool_delete_filters, Ynl_sock_create Ynl_ethtool_family,
           Ethtool_rings_set 3 2, Stderr ''YNL failed: (ys->err.msg)'',
           Ynl_sock_destroy Ynl_ethtool_family]) \<and>
   do_server example_globals example_mem
     ((example_answers example_retries)
        \<lparr>sv_headersplit := \<lparr>hs_sock = True, hs_set_ret = - 95, hs_get_rsp = None\<rparr>\<rparr>) =
     Some (Inl (Error1 ''Failed to enable TCP header split'',
          init_state
            [System (Ethtool_K_ntuple False), System (Ethtool_K_ntuple True),
             System Ethtool_delete_filters, Ynl_sock_create Ynl_ethtool_family,
             Ethtool_rings_set 3 2, Stderr ''YNL failed: (ys->err.msg)'',
             Ynl_sock_destroy Ynl_ethtool_family])) \<and>
   server_setup example_globals example_mem
     ((example_answers example_retries)
        \<lparr>sv_system := (\<lambda>c. if c = Ethtool_X_equal 8 then 0 else 1)\<rparr>) =
     Inl (Error1 ''Failed to configure flow steering'',
          [System (Ethtool_K_ntuple False), System (Ethtool_K_ntuple True),
           System Ethtool_delete_filters, Ynl_sock_create Ynl_ethtool_family,
           Ethtool_rings_set 3 2, Ethtool_rings_get 3, Stderr_header_split ''on'',
           Ynl_sock_destroy Ynl_ethtool_family, System (Ethtool_X_equal 8),
           System (Ethtool_N_5tuple ''tcp4'' None ''192.168.1.4'' ''5201'' 8),
           System (Ethtool_N_3tuple ''tcp4'' ''192.168.1.4'' ''5201'' 8)]) \<and>
   server_setup example_globals example_mem (example_answers example_retries) =
     Inr (example_globals, example_sin, example_setup_trace) \<and>
   hs_set_ret (sv_headersplit (example_answers example_retries)) = 0 \<and>
   (case do_server example_globals example_mem (example_answers example_retries) of
      Some (Inr (r, st)) \<Rightarrow>
        takeWhile (\<lambda>e. e \<noteq> Recvmsg_devmem) (trace st) =
          example_setup_trace @ example_listen_trace
    | _ \<Rightarrow> False) \<and>
   \<not> isl (server_setup example_globals example_mem (example_answers example_retries)) \<and>
   take 14 (trace (final_state (the (do_server example_globals example_mem
     (example_answers example_retries))))) = example_setup_trace"
proof -
  note t = nic_sequence_before_receive
  let ?a0 = "(example_answers example_retries)\<lparr>sv_pton4 := (\<lambda>s. False)\<rparr>"
  let ?a1 = "(example_answers example_retries)
        \<lparr>sv_headersplit := \<lparr>hs_sock = True, hs_set_ret = - 95, hs_get_rsp = None\<rparr>\<rparr>"
  let ?a2 = "(example_answers example_retries)
        \<lparr>sv_system := (\<lambda>c. if c = Ethtool_X_equal 8 then 0 else 1)\<rparr>"
  let ?a3 = "example_answers example_retries"
  let ?res = "the (do_server example_globals example_mem ?a3)"
  have p0: "parse_address (sv_pton6 ?a0) (sv_pton4 ?a0) (server_ip example_globals)
              (sv_atoi ?a0 (port example_globals)) = None"
    by code_simp
  have p1: "parse_address (sv_pton6 ?a1) (sv_pton4 ?a1) (server_ip example_globals)
              (sv_atoi ?a1 (port example_globals)) = Some example_sin"
    by code_simp
  have p2: "parse_address (sv_pton6 ?a2) (sv_pton4 ?a2) (server_ip example_globals)
              (sv_atoi ?a2 (port example_globals)) = Some example_sin"
    by code_simp
  note w0 = t [THEN conjunct1, THEN mp, OF p0, of example_mem, THEN conjunct2]
  have w1: "server_setup example_globals example_mem ?a1 =
     Inl (Error1 ''Failed to enable TCP header split'',
          [System (Ethtool_K_ntuple False), System (Ethtool_K_ntuple True),
           System Ethtool_delete_filters, Ynl_sock_create Ynl_ethtool_family,
           Ethtool_rings_set 3 2, Stderr ''YNL failed: (ys->err.msg)'',
           Ynl_sock_destroy Ynl_ethtool_family])"
    by (subst t [THEN conjunct2, THEN conjunct1, THEN mp, OF p1, of example_mem]) code_simp
  note w1' = t [THEN conjunct2, THEN conjunct2, THEN conjunct1, THEN mp, OF w1, THEN conjunct1]
  have w2: "server_setup example_globals example_mem ?a2 =
     Inl (Error1 ''Failed to configure flow steering'',
          [System (Ethtool_K_ntuple False), System (Ethtool_K_ntuple True),
           System Ethtool_delete_filters, Ynl_sock_create Ynl_ethtool_family,
           Ethtool_rings_set 3 2, Ethtool_rings_get 3, Stderr_header_split ''on'',
           Ynl_sock_destroy Ynl_ethtool_family, System (Ethtool_X_equal 8),
           System (Ethtool_N_5tuple ''tcp4'' None ''192.168.1.4'' ''5201'' 8),
           System (Ethtool_N_3tuple ''tcp4'' ''192.168.1.4'' ''5201'' 8)])"
    by (subst t [THEN conjunct2, THEN conjunct1, THEN mp, OF p2, of example_mem]) code_simp
  have w3: "server_setup example_globals example_mem ?a3 =
     Inr (example_globals, example_sin, example_setup_trace)"
    by code_simp
  note w3' = t [THEN conjunct2, THEN conjunct2, THEN conjunct2, THEN conjunct1, THEN mp, OF w3,
      THEN conjunct2, THEN conjunct1]
  have w4: "(case do_server example_globals example_mem ?a3 of
      Some (Inr (r, st)) \<Rightarrow>
        takeWhile (\<lambda>e. e \<noteq> Recvmsg_devmem) (trace st) =
          example_setup_trace @ example_listen_trace
    | _ \<Rightarrow> False)"
    by code_simp
  have h5: "do_server example_globals example_mem ?a3 = Some ?res \<and>
      Recvmsg_devmem \<in> set (trace (final_state ?res))"
    by code_simp
  from t [THEN conjunct2, THEN conjunct2, THEN conjunct2, THEN conjunct2, THEN conjunct1,
      THEN mp, OF h5]
  have w5: "\<not> isl (server_setup example_globals example_mem ?a3)" by auto
  have h6: "do_server example_globals example_mem ?a3 = Some ?res \<and>
      server_setup example_globals example_mem ?a3 =
        Inr (example_globals, example_sin, example_setup_trace)"
    using h5 w3 by simp
  have l: "length example_setup_trace = 14" by code_simp
  from t [THEN conjunct2, THEN conjunct2, THEN conjunct2, THEN conjunct2, THEN conjunct2,
      THEN mp, OF h6] l
  have w6: "take 14 (trace (final_state ?res)) = example_setup_trace" by auto
  from w0 w1 w1' w2 w3 w3' w4 w5 w6 show ?thesis by (intro conjI)
qed

subsection \<open>C9: the bind of the empty queue array in the self-test\<close>

text \<open>\<^verbatim>\<open>bind_rx_queue\<close> hands the queue list to the kernel as it is: whether an empty
  list is refused is the answer of the kernel. The self-test means to require the refusal:
  with a buffer at hand, a bind of the zeroed array that succeeds ends the process. But
  \<^verbatim>\<open>run_devmem_tests\<close> holds a null pointer for the buffer, and no run of it comes to
  a bind request.\<close>

lemma run_devmem_tests_never_binds:
  "\<exists>e tr. run_devmem_tests g a = Inl (e, tr) \<and> (\<forall>i f q. Netdev_bind_rx i f q \<notin> set tr)"
  by (auto simp add: run_devmem_tests_def devmem_tests_def configure_rss_def
      configure_headersplit_def Let_def split: option.splits)

lemma devmem_tests_empty_bind_must_fail:
  assumes "fst (configure_rss g (st_system a)) = 0"
    and "fst (configure_headersplit g (st_headersplit_1 a) True) = 0"
    and "fst (bind_rx_queue g (st_bind_empty a) (ifindex g) (fd m)
                (replicate (nat (num_queues g)) zeroed_queue)) = 0"
  shows "\<exists>tr. devmem_tests (Some m) g a =
           Inl (Error1 ''Binding empty queues array should have failed'', tr)"
  using assms by (simp add: devmem_tests_def Let_def split_def)

lemma bind_rx_queue_forwards_empty_list:
  "bd_sock a \<Longrightarrow> bd_rsp a = Some (Some i) \<Longrightarrow> fst (bind_rx_queue g a ifidx f []) = 0"
  by (simp add: bind_rx_queue_def Let_def)


text \<open>
  Claim C9 has the self-test issue the bind of the empty queue array and require its
  failure. In a self-test in which RSS and header split are set and the kernel would
  refuse that bind, \<^verbatim>\<open>run_devmem_tests\<close> ends on the read of \<^verbatim>\<open>mem->fd\<close> through
  the null pointer, before any bind request is made.
\<close>

theorem selftest_null_dereference:
  "run_devmem_tests example_globals example_selftest =
     Inl (Null_dereference,
          [System (Ethtool_X_equal 8), Ynl_sock_create Ynl_ethtool_family,
           Ethtool_rings_set 3 2, Ethtool_rings_get 3, Stderr_header_split ''on'',
           Ynl_sock_destroy Ynl_ethtool_family])"
  by code_simp


subsection \<open>C10: LINEAR messages\<close>

lemma cmsg_loop_linear:
  "\<forall>c \<in> set cs. cmsg_level (fst c) = SOL_SOCKET \<and> cmsg_type (fst c) = SCM_DEVMEM_LINEAR \<Longrightarrow>
   cmsg_loop g st cs =
     Inr (st\<lparr>is_devmem := (cs \<noteq> [] \<or> is_devmem st),
            trace := trace st @ map (\<lambda>c. Stderr_linear (frag_size (cmsg_data (fst c)))) cs\<rparr>)"
proof (induction cs arbitrary: st)
  case Nil
  then show ?case by simp
next
  case (Cons c cs)
  obtain cm r where c: "c = (cm, r)" by (cases c)
  with Cons.prems have "cmsg_step g st c =
     Inr (emit (Stderr_linear (frag_size (cmsg_data cm))) (st\<lparr>is_devmem := True\<rparr>))"
    by (simp add: const_defs Let_def)
  with Cons.IH [of "emit (Stderr_linear (frag_size (cmsg_data cm))) (st\<lparr>is_devmem := True\<rparr>)"]
    Cons.prems c
  show ?case by (simp add: emit_def)
qed

text \<open>
  Claim C10. A LINEAR control message marks the received message as devmem delivery and
  is otherwise skipped: the step sets \<^verbatim>\<open>is_devmem\<close>, prints its line and changes
  nothing else, so no byte is counted, nothing is copied and no token is returned (first
  part). A received message whose control messages are all LINEAR, and at least one, does
  not end in the flow-steering error: the loop goes on to the next \<^verbatim>\<open>recvmsg\<close> with
  the counters as they were (second part).
\<close>

theorem linear_is_devmem_but_skipped:
  "(cmsg_level cm = SOL_SOCKET \<and> cmsg_type cm = SCM_DEVMEM_LINEAR \<longrightarrow>
      cmsg_step g st (cm, r) =
        Inr (st\<lparr>is_devmem := True,
               trace := trace st @ [Stderr_linear (frag_size (cmsg_data cm))]\<rparr>)) \<and>
   (0 < rv_ret m \<and> rv_cmsgs m \<noteq> [] \<and>
    (\<forall>c \<in> set (rv_cmsgs m).
       cmsg_level (fst c) = SOL_SOCKET \<and> cmsg_type (fst c) = SCM_DEVMEM_LINEAR) \<longrightarrow>
      recv_loop g st (m # ms) =
        recv_loop g
          (st\<lparr>is_devmem := True,
              trace := trace st @ [Recvmsg_devmem, Stderr_recvmsg_ret (rv_ret m)] @
                       map (\<lambda>c. Stderr_linear (frag_size (cmsg_data (fst c)))) (rv_cmsgs m)\<rparr>)
          ms)"
proof -
  have step: "cmsg_step g st (cm, r) =
        Inr (st\<lparr>is_devmem := True,
               trace := trace st @ [Stderr_linear (frag_size (cmsg_data cm))]\<rparr>)"
    if "cmsg_level cm = SOL_SOCKET \<and> cmsg_type cm = SCM_DEVMEM_LINEAR"
    using that by (simp add: const_defs Let_def emit_def)
  have msg: "recv_loop g st (m # ms) =
        recv_loop g
          (st\<lparr>is_devmem := True,
              trace := trace st @ [Recvmsg_devmem, Stderr_recvmsg_ret (rv_ret m)] @
                       map (\<lambda>c. Stderr_linear (frag_size (cmsg_data (fst c)))) (rv_cmsgs m)\<rparr>)
          ms"
    if h: "0 < rv_ret m \<and> rv_cmsgs m \<noteq> [] \<and>
      (\<forall>c \<in> set (rv_cmsgs m).
         cmsg_level (fst c) = SOL_SOCKET \<and> cmsg_type (fst c) = SCM_DEVMEM_LINEAR)"
  proof -
    from h have all: "\<forall>c \<in> set (rv_cmsgs m).
         cmsg_level (fst c) = SOL_SOCKET \<and> cmsg_type (fst c) = SCM_DEVMEM_LINEAR"
      by blast
    show ?thesis
      using h by (simp add: Let_def cmsg_loop_linear [OF all] emit_def)
  qed
  from step msg show ?thesis by blast
qed

text \<open>One LINEAR message of 66 bytes, alone and in a run that ends with the close of the
  peer.\<close>

theorem linear_is_devmem_but_skipped_witness:
  "cmsg_step example_globals (init_state []) (linear_hdr 66, 0) =
     Inr \<lparr>non_page_aligned_frags = 0, page_aligned_frags = 0, total_received = 0,
          endptr = - 1, is_devmem = True, trace = [Stderr_linear 66]\<rparr> \<and>
   recv_loop example_globals (init_state [])
     [\<lparr>rv_ret = 66, rv_errno = 0, rv_cmsgs = [(linear_hdr 66, 0)]\<rparr>,
      \<lparr>rv_ret = 0, rv_errno = 0, rv_cmsgs = []\<rparr>] =
     Some (Inr \<lparr>non_page_aligned_frags = 0, page_aligned_frags = 0, total_received = 0,
                endptr = - 1, is_devmem = False,
                trace = [Recvmsg_devmem, Stderr_recvmsg_ret 66, Stderr_linear 66,
                         Recvmsg_devmem, Stderr ''client exited'']\<rparr>)"
proof -
  have h1: "cmsg_level (linear_hdr 66) = SOL_SOCKET \<and> cmsg_type (linear_hdr 66) = SCM_DEVMEM_LINEAR"
    by (simp add: example_defs)
  have h2: "0 < rv_ret \<lparr>rv_ret = 66, rv_errno = 0, rv_cmsgs = [(linear_hdr 66, 0)]\<rparr> \<and>
    rv_cmsgs \<lparr>rv_ret = 66, rv_errno = 0, rv_cmsgs = [(linear_hdr 66, 0)]\<rparr> \<noteq> [] \<and>
    (\<forall>c \<in> set (rv_cmsgs \<lparr>rv_ret = 66, rv_errno = 0, rv_cmsgs = [(linear_hdr 66, 0)]\<rparr>).
       cmsg_level (fst c) = SOL_SOCKET \<and> cmsg_type (fst c) = SCM_DEVMEM_LINEAR)"
    by (simp add: example_defs)
  note a = linear_is_devmem_but_skipped [THEN conjunct1, THEN mp, OF h1,
      of example_globals "init_state []" 0]
  note b = linear_is_devmem_but_skipped [THEN conjunct2, THEN mp, OF h2,
      of example_globals "init_state []" "[\<lparr>rv_ret = 0, rv_errno = 0, rv_cmsgs = []\<rparr>]"]
  from a have "cmsg_step example_globals (init_state []) (linear_hdr 66, 0) =
     Inr \<lparr>non_page_aligned_frags = 0, page_aligned_frags = 0, total_received = 0,
          endptr = - 1, is_devmem = True, trace = [Stderr_linear 66]\<rparr>"
    by (simp add: init_state_def example_defs)
  moreover from b have "recv_loop example_globals (init_state [])
     [\<lparr>rv_ret = 66, rv_errno = 0, rv_cmsgs = [(linear_hdr 66, 0)]\<rparr>,
      \<lparr>rv_ret = 0, rv_errno = 0, rv_cmsgs = []\<rparr>] =
     Some (Inr \<lparr>non_page_aligned_frags = 0, page_aligned_frags = 0, total_received = 0,
                endptr = - 1, is_devmem = False,
                trace = [Recvmsg_devmem, Stderr_recvmsg_ret 66, Stderr_linear 66,
                         Recvmsg_devmem, Stderr ''client exited'']\<rparr>)"
    by (simp add: init_state_def example_defs Let_def emit_def)
  ultimately show ?thesis by (intro conjI)
qed

end
